theory Spec2Isabelle
  imports Main "HOL-Library.Sublist" "HOL-Library.Word" "HOL-Library.AList"
begin

section \<open>Derivation paths (constants/derivationPaths)\<close>

text \<open>
  JavaScript numbers, as far as the path helpers need them: an integer or \<open>NaN\<close>
  (what \<open>parseInt\<close> returns when no digit is found). Arithmetic and comparison with
  \<open>NaN\<close> follow IEEE 754: \<open>NaN + x = NaN\<close>, \<open>NaN \<ge> x\<close> is false.
\<close>

datatype jsnum = NaN | Num int

definition HARDENED_OFFSET :: int where
  "HARDENED_OFFSET = 0x80000000"

fun num_add :: "jsnum \<Rightarrow> jsnum \<Rightarrow> jsnum" where
  "num_add (Num a) (Num b) = Num (a + b)"
| "num_add _ _ = NaN"

fun num_sub :: "jsnum \<Rightarrow> jsnum \<Rightarrow> jsnum" where
  "num_sub (Num a) (Num b) = Num (a - b)"
| "num_sub _ _ = NaN"

fun num_ge :: "jsnum \<Rightarrow> jsnum \<Rightarrow> bool" where
  "num_ge (Num a) (Num b) = (b \<le> a)"
| "num_ge _ _ = False"

text \<open>\<open>Number.prototype.toString()\<close> on integers (decimal, no exponent below \<open>10^21\<close>).\<close>

definition digit_char :: "nat \<Rightarrow> char" where
  "digit_char d = char_of (48 + d)"

function dec_nat :: "nat \<Rightarrow> string" where
  "dec_nat n = (if n < 10 then [digit_char n] else dec_nat (n div 10) @ [digit_char (n mod 10)])"
  by pat_completeness auto
termination
  by (relation "measure id") auto

declare dec_nat.simps [simp del]

fun number_toString :: "jsnum \<Rightarrow> string" where
  "number_toString NaN = ''NaN''"
| "number_toString (Num i) = (if i < 0 then ''-'' @ dec_nat (nat (- i)) else dec_nat (nat i))"

text \<open>\<open>parseInt(s, 10)\<close>: skip leading white space (here the ASCII white space: path
  strings are ASCII), an optional sign, then the longest run of decimal digits; \<open>NaN\<close>
  when that run is empty.\<close>

definition is_digit :: "char \<Rightarrow> bool" where
  "is_digit c = (48 \<le> (of_char c :: nat) \<and> (of_char c :: nat) \<le> 57)"

definition digit_val :: "char \<Rightarrow> int" where
  "digit_val c = int (of_char c) - 48"

definition is_space :: "char \<Rightarrow> bool" where
  "is_space c = ((of_char c :: nat) \<in> {9, 10, 11, 12, 13, 32})"

definition digits_value :: "string \<Rightarrow> int" where
  "digits_value ds = foldl (\<lambda>a c. 10 * a + digit_val c) 0 ds"

definition parseInt10 :: "string \<Rightarrow> jsnum" where
  "parseInt10 s =
     (let s1 = dropWhile is_space s;
          neg = (case s1 of c # _ \<Rightarrow> c = CHR ''-'' | [] \<Rightarrow> False);
          s2 = (case s1 of c # r \<Rightarrow> (if c = CHR ''-'' \<or> c = CHR ''+'' then r else s1) | [] \<Rightarrow> s1);
          ds = takeWhile is_digit s2
      in if ds = [] then NaN
         else Num (if neg then - digits_value ds else digits_value ds))"

text \<open>String helpers: \<open>replace\<close> with a string pattern (first occurrence only),
  \<open>replace(/['h]/g, '')\<close>, \<open>split\<close> on a one-character separator, \<open>join\<close>, \<open>endsWith\<close>.\<close>

fun replace_first :: "string \<Rightarrow> string \<Rightarrow> string \<Rightarrow> string" where
  "replace_first pat rep [] = (if pat = [] then rep else [])"
| "replace_first pat rep (c # cs) =
     (if prefix pat (c # cs) then rep @ drop (length pat) (c # cs)
      else c # replace_first pat rep cs)"

definition apostrophe :: char where
  "apostrophe = CHR 0x27"

definition strip_hardened_marks :: "string \<Rightarrow> string" where
  "strip_hardened_marks part = filter (\<lambda>c. c \<noteq> apostrophe \<and> c \<noteq> CHR ''h'') part"

fun split_on :: "char \<Rightarrow> string \<Rightarrow> string list" where
  "split_on sep [] = [[]]"
| "split_on sep (c # cs) =
     (if c = sep then [] # split_on sep cs
      else (case split_on sep cs of p # ps \<Rightarrow> (c # p) # ps | [] \<Rightarrow> [[c]]))"

fun join :: "string \<Rightarrow> string list \<Rightarrow> string" where
  "join sep [] = []"
| "join sep [p] = p"
| "join sep (p # q # ps) = p @ sep @ join sep (q # ps)"

definition endsWith :: "string \<Rightarrow> string \<Rightarrow> bool" where
  "endsWith s suf = suffix suf s"

definition pathStringToArray :: "string \<Rightarrow> jsnum list" where
  "pathStringToArray path =
     map (\<lambda>part.
            let isHardened = endsWith part [apostrophe] \<or> endsWith part ''h'';
                v = parseInt10 (strip_hardened_marks part)
            in if isHardened then num_add v (Num HARDENED_OFFSET) else v)
         (split_on CHR ''/'' (replace_first ''m/'' [] path))"

definition pathArrayToString :: "jsnum list \<Rightarrow> string" where
  "pathArrayToString pathArray =
     ''m/'' @
     join ''/''
       (map (\<lambda>n.
              let hardened = num_ge n (Num HARDENED_OFFSET);
                  v = (if hardened then num_sub n (Num HARDENED_OFFSET) else n)
              in if hardened then number_toString v @ [apostrophe] else number_toString v)
            pathArray)"

text \<open>The two arrow functions handed to \<open>map\<close>, named so that lemmas can speak about
  one path component at a time.\<close>

definition render_index :: "jsnum \<Rightarrow> string" where
  "render_index n =
     (let hardened = num_ge n (Num HARDENED_OFFSET);
          v = (if hardened then num_sub n (Num HARDENED_OFFSET) else n)
      in if hardened then number_toString v @ [apostrophe] else number_toString v)"

definition parse_index :: "string \<Rightarrow> jsnum" where
  "parse_index part =
     (let isHardened = endsWith part [apostrophe] \<or> endsWith part ''h'';
          v = parseInt10 (strip_hardened_marks part)
      in if isHardened then num_add v (Num HARDENED_OFFSET) else v)"

text \<open>
  Stated from the claim, to speak of what it speaks of: a path as the list of its
  (index, hardened-flag) pairs. A component is the index in decimal, followed by the
  mark when the index is hardened; the source reads both marks, \<open>'\<close> and \<open>h\<close>, and
  writes \<open>'\<close>. The encoding of a pair is the index plus \<open>0x80000000\<close> when hardened,
  and \<open>pair_of_index\<close> is the pair a 32-bit array element stands for.
\<close>

definition component :: "char \<Rightarrow> nat \<times> bool \<Rightarrow> string" where
  "component mark p = dec_nat (fst p) @ (if snd p then [mark] else [])"

definition path_of_pairs :: "char \<Rightarrow> (nat \<times> bool) list \<Rightarrow> string" where
  "path_of_pairs mark ps = ''m/'' @ join ''/'' (map (component mark) ps)"

definition encoded :: "nat \<times> bool \<Rightarrow> jsnum" where
  "encoded p = Num (int (fst p) + (if snd p then HARDENED_OFFSET else 0))"

definition pair_of_index :: "int \<Rightarrow> nat \<times> bool" where
  "pair_of_index n =
     (nat (if HARDENED_OFFSET \<le> n then n - HARDENED_OFFSET else n), HARDENED_OFFSET \<le> n)"

section \<open>Errors and events\<close>

text \<open>
  A thrown JavaScript error is a value: its class and its message. Every \<open>throw\<close>,
  rejected promise and failing library call of the source is an \<open>Inl\<close> branch of
  the model. Emitted events are recorded by name; listeners are not modelled.
\<close>

datatype error =
    Error string
  | RangeError string
  | TypeError string
  | SyntaxError string
  | AbortError string

fun error_message :: "error \<Rightarrow> string" where
  "error_message (Error m) = m"
| "error_message (RangeError m) = m"
| "error_message (TypeError m) = m"
| "error_message (SyntaxError m) = m"
| "error_message (AbortError m) = m"

definition EV_CONNECTED :: string where "EV_CONNECTED = ''device:connected''"
definition EV_DISCONNECTED :: string where "EV_DISCONNECTED = ''device:disconnected''"
definition EV_BUTTON_REQUEST :: string where "EV_BUTTON_REQUEST = ''device:buttonRequest''"
definition EV_PIN_REQUEST :: string where "EV_PIN_REQUEST = ''device:pinRequest''"
definition EV_WORD_REQUEST :: string where "EV_WORD_REQUEST = ''device:wordRequest''"
definition EV_FAILURE :: string where "EV_FAILURE = ''device:failure''"

section \<open>USB HID transport (class UsbTransport)\<close>

type_synonym byte = "8 word"
type_synonym buffer = "byte list"

definition PACKET_SIZE :: nat where
  "PACKET_SIZE = 64"

definition USB_VENDOR_ID :: int where "USB_VENDOR_ID = 0x2b24"
definition USB_PRODUCT_ID :: int where "USB_PRODUCT_ID = 0x0001"
definition TIMEOUT_OPERATION :: int where "TIMEOUT_OPERATION = 30000"

record UsbDevice =
  ud_vendorId :: int
  ud_productId :: int
  ud_path :: string

record UsbConfig =
  uc_vendorId :: int
  uc_productId :: int
  uc_devicePath :: "string option"
  uc_timeout :: int

text \<open>
  \<open>handle\<close> is the native HID handle (\<open>unknown\<close> in the source, \<open>null\<close> when closed).
  The source leaves the native calls as comments: \<open>connect\<close> does not open the handle,
  \<open>write\<close> builds the report and returns its length, \<open>read\<close> returns the empty buffer.
  The model is the source as it stands.
\<close>

record UsbTransport =
  usb_config :: UsbConfig
  usb_device :: "UsbDevice option"
  usb_handle :: "unit option"
  usb_connected :: bool


text \<open>JavaScript's \<open>a || b\<close> on an optional string and on an optional number.\<close>

fun or_string :: "string option \<Rightarrow> string \<Rightarrow> string" where
  "or_string None d = d"
| "or_string (Some s) d = (if s = [] then d else s)"

fun or_number :: "int option \<Rightarrow> int \<Rightarrow> int" where
  "or_number None d = d"
| "or_number (Some n) d = (if n = 0 then d else n)"

fun truthy_string :: "string option \<Rightarrow> bool" where
  "truthy_string None = False"
| "truthy_string (Some s) = (s \<noteq> [])"






text \<open>\<open>write\<close> pads the data into a report of \<open>PACKET_SIZE + 1\<close> bytes and returns the
  report's length; \<open>read\<close> returns \<open>Buffer.alloc(0)\<close>. Neither changes the transport.\<close>

definition usb_write :: "UsbTransport \<Rightarrow> buffer \<Rightarrow> error + nat" where
  "usb_write t data =
     (if \<not> usb_connected t \<or> usb_handle t = None then Inl (Error ''Device not connected'')
      else
        (let chunk = take (min (length data) PACKET_SIZE) data;
             packet = 0x00 # chunk @ replicate (PACKET_SIZE - length chunk) 0
         in Inr (length packet)))"

definition usb_read :: "UsbTransport \<Rightarrow> error + buffer" where
  "usb_read t =
     (if \<not> usb_connected t \<or> usb_handle t = None then Inl (Error ''Device not connected'')
      else Inr [])"

subsection \<open>Big-endian fields of a Buffer\<close>

definition uint16BE :: "nat \<Rightarrow> buffer" where
  "uint16BE v = [word_of_int (int v div 256), word_of_int (int v mod 256)]"

definition uint32BE :: "nat \<Rightarrow> buffer" where
  "uint32BE v = [word_of_int (int v div 2 ^ 24), word_of_int (int v div 2 ^ 16 mod 256),
                 word_of_int (int v div 256 mod 256), word_of_int (int v mod 256)]"

definition readUInt16BE :: "buffer \<Rightarrow> nat \<Rightarrow> error + nat" where
  "readUInt16BE buf off =
     (if length buf < off + 2 then Inl (RangeError ''Attempt to access memory outside buffer bounds'')
      else Inr (nat (uint (buf ! off) * 256 + uint (buf ! (off + 1)))))"

definition readUInt32BE :: "buffer \<Rightarrow> nat \<Rightarrow> error + nat" where
  "readUInt32BE buf off =
     (if length buf < off + 4 then Inl (RangeError ''Attempt to access memory outside buffer bounds'')
      else Inr (nat (uint (buf ! off) * 2 ^ 24 + uint (buf ! (off + 1)) * 2 ^ 16
                     + uint (buf ! (off + 2)) * 256 + uint (buf ! (off + 3)))))"

text \<open>\<open>Buffer.concat(list, totalLength)\<close>: truncated or zero-filled to \<open>totalLength\<close>.\<close>

definition buffer_concat :: "buffer list \<Rightarrow> nat \<Rightarrow> buffer" where
  "buffer_concat bufs totalLength = take totalLength (concat bufs @ replicate totalLength 0)"

subsection \<open>sendMessage: framing, sending, reading the response\<close>

text \<open>The 7-byte header; \<open>writeUInt16BE\<close> and \<open>writeUInt32BE\<close> throw on a value out of range.\<close>

definition make_header :: "int \<Rightarrow> nat \<Rightarrow> error + buffer" where
  "make_header messageType len =
     (if messageType < 0 \<or> 65535 < messageType then Inl (RangeError ''The value of \"value\" is out of range.'')
      else if 2 ^ 32 \<le> int len then Inl (RangeError ''The value of \"value\" is out of range.'')
      else Inr (0x3f # uint16BE (nat messageType) @ uint32BE len))"

text \<open>One iteration of the splitting loop: a zeroed packet of \<open>PACKET_SIZE\<close> bytes, the
  marker at offset 0 and \<open>fullMessage[i .. min(i + PACKET_SIZE - 1, length))\<close> copied to
  offset 1.\<close>

definition make_packet :: "buffer \<Rightarrow> nat \<Rightarrow> buffer" where
  "make_packet fullMessage i =
     (let chunk = take (min (i + PACKET_SIZE - 1) (length fullMessage) - i) (drop i fullMessage)
      in 0x3f # chunk @ replicate (PACKET_SIZE - 1 - length chunk) 0)"

function split_packets :: "buffer \<Rightarrow> nat \<Rightarrow> buffer list" where
  "split_packets fullMessage i =
     (if i < length fullMessage
      then make_packet fullMessage i # split_packets fullMessage (i + (PACKET_SIZE - 1))
      else [])"
  by pat_completeness auto
termination
  by (relation "measure (\<lambda>(fullMessage, i). length fullMessage - i)") (auto simp: PACKET_SIZE_def)

declare split_packets.simps [simp del]

definition frame_message :: "int \<Rightarrow> buffer \<Rightarrow> error + buffer list" where
  "frame_message messageType message =
     (case make_header messageType (length message) of
        Inl e \<Rightarrow> Inl e
      | Inr header \<Rightarrow> Inr (split_packets (header @ message) 0))"

fun write_all :: "UsbTransport \<Rightarrow> buffer list \<Rightarrow> error + unit" where
  "write_all t [] = Inr ()"
| "write_all t (packet # packets) =
     (case usb_write t packet of
        Inl e \<Rightarrow> Inl e
      | Inr _ \<Rightarrow> write_all t packets)"

text \<open>
  The \<open>while (true)\<close> loop, with its variables \<open>responsePackets\<close>, \<open>totalLength\<close> and
  \<open>expectedLength\<close>. It goes round again only after a read that returned a packet with
  bytes in it, which \<open>read\<close> never does: hence it terminates.
\<close>

function read_response ::
  "UsbTransport \<Rightarrow> buffer list \<Rightarrow> int \<Rightarrow> nat \<Rightarrow> error + buffer list \<times> nat" where
  "read_response t responsePackets totalLength expectedLength =
     (case usb_read t of
        Inl e \<Rightarrow> Inl e
      | Inr packet \<Rightarrow>
          (if length packet = 0 then Inr (responsePackets, expectedLength)
           else if responsePackets = [] \<and> packet ! 0 = 0x3f then
             (case readUInt16BE packet 1 of
                Inl e \<Rightarrow> Inl e
              | Inr responseType \<Rightarrow>
                 (case readUInt32BE packet 3 of
                    Inl e \<Rightarrow> Inl e
                  | Inr expectedLength' \<Rightarrow>
                     (if int expectedLength' \<le> totalLength + (int (length packet) - 7)
                      then Inr (responsePackets @ [drop 7 packet], expectedLength')
                      else read_response t (responsePackets @ [drop 7 packet])
                             (totalLength + (int (length packet) - 7)) expectedLength')))
           else
             (if int expectedLength \<le> totalLength + (int (length packet) - 1)
              then Inr (responsePackets @ [drop 1 packet], expectedLength)
              else read_response t (responsePackets @ [drop 1 packet])
                     (totalLength + (int (length packet) - 1)) expectedLength)))"
  by pat_completeness auto
termination
  by (relation "{}") (auto simp: usb_read_def split: if_splits)

declare read_response.simps [simp del]

definition sendMessage :: "UsbTransport \<Rightarrow> int \<Rightarrow> buffer \<Rightarrow> error + buffer" where
  "sendMessage t messageType message =
     (case frame_message messageType message of
        Inl e \<Rightarrow> Inl e
      | Inr packets \<Rightarrow>
          (case write_all t packets of
             Inl e \<Rightarrow> Inl e
           | Inr _ \<Rightarrow>
               (case read_response t [] 0 0 of
                  Inl e \<Rightarrow> Inl e
                | Inr (responsePackets, expectedLength) \<Rightarrow>
                    Inr (buffer_concat responsePackets expectedLength))))"



section \<open>JSON values, HTTP requests and the local daemon\<close>

datatype json =
    JUndefined
  | JNull
  | JBool bool
  | JNum int
  | JStr string
  | JArr "json list"
  | JObj "(string \<times> json) list"

text \<open>Reading a property: a \<open>TypeError\<close> on \<open>undefined\<close> and \<open>null\<close>, \<open>undefined\<close> when the
  object has no such key.\<close>

fun get_prop :: "json \<Rightarrow> string \<Rightarrow> error + json" where
  "get_prop JUndefined k = Inl (TypeError (''Cannot read properties of undefined (reading '' @ k @ '')''))"
| "get_prop JNull k = Inl (TypeError (''Cannot read properties of null (reading '' @ k @ '')''))"
| "get_prop (JObj kvs) k = Inr (case map_of kvs k of None \<Rightarrow> JUndefined | Some v \<Rightarrow> v)"
| "get_prop _ k = Inr JUndefined"

text \<open>\<open>{...a, ...b}\<close>: the keys of \<open>b\<close> overwrite those of \<open>a\<close> in place, new keys go last.\<close>

definition spread :: "(string \<times> json) list \<Rightarrow> (string \<times> json) list \<Rightarrow> (string \<times> json) list" where
  "spread a b = foldl (\<lambda>obj (k, v). AList.update k v obj) a b"

text \<open>
  A session token as the program holds it: the transports declare it \<open>string | null\<close>
  and assign it the \<open>session\<close> property of a parsed reply, which is a string, \<open>null\<close>, or
  \<open>undefined\<close> when the reply has no such property. \<open>truthy_js\<close> is the test \<open>!!x\<close>,
  \<open>or_js x d\<close> is \<open>x || d\<close> and \<open>template_js\<close> is the value inside a template literal.
\<close>

datatype jstring = JSUndefined | JSNull | JSStr string


fun or_js :: "jstring \<Rightarrow> string \<Rightarrow> string" where
  "or_js (JSStr s) d = (if s = [] then d else s)"
| "or_js _ d = d"

fun template_js :: "jstring \<Rightarrow> string" where
  "template_js JSUndefined = ''undefined''"
| "template_js JSNull = ''null''"
| "template_js (JSStr s) = s"


text \<open>\<open>MessageResponse\<close> and \<open>BridgeResponse\<close>: the envelope \<open>{type, message}\<close>.\<close>

record MessageResponse =
  rsp_type :: int
  rsp_message :: json

record KeepKeyDevice =
  kd_path :: string
  kd_vendorId :: int
  kd_productId :: int
  kd_label :: json
  kd_features :: json

record BridgeDevice =
  bd_path :: string
  bd_session :: jstring
  bd_debugSession :: "string option"
  bd_product :: "string option"
  bd_vendor :: "string option"

text \<open>A request as \<open>fetch\<close> receives it; the body is the value handed to
  \<open>JSON.stringify\<close>.\<close>

datatype request =
  Request (req_method: string) (req_url: string) (req_headers: "(string \<times> string) list")
          (req_body: "json option")

text \<open>
  What \<open>fetch\<close> gives back: the promise rejects (network failure, timeout, abort), or a
  response with its \<open>ok\<close> flag, its text and, when the body parses as JSON, the parsed value
  at the type the call site casts it to.
\<close>

datatype 'a fetched =
    Rejected error
  | Response bool string "'a option"

text \<open>
  The local daemon (Bridge or Desktop) is a parameter: a state of any type \<open>'d\<close> and, for
  each endpoint the source calls, the reply to a request in a state and the next state.
\<close>

record 'd network =
  net_enumerate :: "request \<Rightarrow> 'd \<Rightarrow> BridgeDevice list fetched \<times> 'd"
  net_acquire :: "request \<Rightarrow> 'd \<Rightarrow> jstring fetched \<times> 'd"
  net_release :: "request \<Rightarrow> 'd \<Rightarrow> unit fetched \<times> 'd"
  net_call :: "request \<Rightarrow> 'd \<Rightarrow> MessageResponse fetched \<times> 'd"
  net_devices :: "request \<Rightarrow> 'd \<Rightarrow> KeepKeyDevice list fetched \<times> 'd"

text \<open>The world outside the object: the daemon's state, every request sent so far, in
  order, and the names of the events emitted so far.\<close>

record 'd world =
  w_daemon :: 'd
  w_log :: "request list"
  w_events :: "string list"

definition fetch ::
  "(request \<Rightarrow> 'd \<Rightarrow> 'a fetched \<times> 'd) \<Rightarrow> request \<Rightarrow> 'd world \<Rightarrow> 'a fetched \<times> 'd world" where
  "fetch endpoint rq w =
     (case endpoint rq (w_daemon w) of
        (r, d') \<Rightarrow> (r, w\<lparr>w_daemon := d', w_log := w_log w @ [rq]\<rparr>))"

definition emit :: "string \<Rightarrow> 'd world \<Rightarrow> 'd world" where
  "emit name w = w\<lparr>w_events := w_events w @ [name]\<rparr>"

text \<open>\<open>await response.json()\<close> straight after \<open>await fetch(...)\<close>, with no look at \<open>ok\<close>.\<close>

fun response_json :: "'a fetched \<Rightarrow> error + 'a" where
  "response_json (Rejected e) = Inl e"
| "response_json (Response ok txt None) = Inl (SyntaxError ''Unexpected token in JSON'')"
| "response_json (Response ok txt (Some v)) = Inr v"

text \<open>A \<open>string | null\<close> inside a template literal.\<close>

fun template_of :: "string option \<Rightarrow> string" where
  "template_of None = ''null''"
| "template_of (Some s) = s"

fun or_bool :: "bool option \<Rightarrow> bool \<Rightarrow> bool" where
  "or_bool (Some True) d = True"
| "or_bool _ d = d"

section \<open>Message registry (MESSAGE_TYPES)\<close>

definition MT_Initialize :: int where "MT_Initialize = 0"
definition MT_Ping :: int where "MT_Ping = 1"
definition MT_Success :: int where "MT_Success = 2"
definition MT_Failure :: int where "MT_Failure = 3"
definition MT_ChangePin :: int where "MT_ChangePin = 4"
definition MT_WipeDevice :: int where "MT_WipeDevice = 5"
definition MT_GetEntropy :: int where "MT_GetEntropy = 9"
definition MT_ResetDevice :: int where "MT_ResetDevice = 14"
definition MT_Features :: int where "MT_Features = 17"
definition MT_PinMatrixRequest :: int where "MT_PinMatrixRequest = 18"
definition MT_PinMatrixAck :: int where "MT_PinMatrixAck = 19"
definition MT_Cancel :: int where "MT_Cancel = 20"
definition MT_ClearSession :: int where "MT_ClearSession = 24"
definition MT_ApplySettings :: int where "MT_ApplySettings = 25"
definition MT_ButtonRequest :: int where "MT_ButtonRequest = 26"
definition MT_ButtonAck :: int where "MT_ButtonAck = 27"
definition MT_PassphraseAck :: int where "MT_PassphraseAck = 42"
definition MT_RecoveryDevice :: int where "MT_RecoveryDevice = 45"
definition MT_WordRequest :: int where "MT_WordRequest = 46"
definition MT_WordAck :: int where "MT_WordAck = 47"

section \<open>Device client (class KeepKeyClient)\<close>

datatype ConnectionType =
    USB_HID
  | WEBUSB
  | KEEPKEY_DESKTOP
  | KEEPKEY_BRIDGE
  | OtherConnection string

fun connection_name :: "ConnectionType \<Rightarrow> string" where
  "connection_name USB_HID = ''usbHid''"
| "connection_name WEBUSB = ''webusb''"
| "connection_name KEEPKEY_DESKTOP = ''keepkeyDesktop''"
| "connection_name KEEPKEY_BRIDGE = ''keepkeyBridge''"
| "connection_name (OtherConnection s) = s"

text \<open>\<open>TransportConfig\<close> as the caller passes it, and as the constructor stores it, with
  the three defaults filled in.\<close>

record TransportConfig =
  tc_connectionType :: ConnectionType
  tc_devicePath :: "string option"
  tc_vendorId :: "int option"
  tc_productId :: "int option"
  tc_bridgeUrl :: "string option"
  tc_desktopUrl :: "string option"
  tc_apiKey :: "string option"
  tc_timeout :: "int option"

record ClientConfig =
  cc_connectionType :: ConnectionType
  cc_devicePath :: "string option"
  cc_vendorId :: int
  cc_productId :: int
  cc_bridgeUrl :: "string option"
  cc_desktopUrl :: "string option"
  cc_apiKey :: "string option"
  cc_timeout :: int

record KeepKeyClient =
  kk_config :: ClientConfig
  kk_device :: "KeepKeyDevice option"
  kk_connected :: bool
  kk_sessionId :: jstring

definition new_KeepKeyClient :: "TransportConfig \<Rightarrow> KeepKeyClient" where
  "new_KeepKeyClient config =
     \<lparr>kk_config =
        \<lparr>cc_connectionType = tc_connectionType config,
         cc_devicePath = tc_devicePath config,
         cc_vendorId = or_number (tc_vendorId config) USB_VENDOR_ID,
         cc_productId = or_number (tc_productId config) USB_PRODUCT_ID,
         cc_bridgeUrl = tc_bridgeUrl config,
         cc_desktopUrl = tc_desktopUrl config,
         cc_apiKey = tc_apiKey config,
         cc_timeout = or_number (tc_timeout config) TIMEOUT_OPERATION\<rparr>,
      kk_device = None, kk_connected = False, kk_sessionId = JSNull\<rparr>"

definition DEFAULT_URL :: string where
  "DEFAULT_URL = ''http://localhost:1646''"

type_synonym ('a, 'd) client_result = "(error + 'a) \<times> KeepKeyClient \<times> 'd world"

definition callUsbHid ::
  "KeepKeyClient \<Rightarrow> int \<Rightarrow> (string \<times> json) list \<Rightarrow> 'd world \<Rightarrow> (MessageResponse, 'd) client_result" where
  "callUsbHid c type params w = (Inl (Error ''USB HID transport requires native module''), c, w)"

definition callWebUsb ::
  "KeepKeyClient \<Rightarrow> int \<Rightarrow> (string \<times> json) list \<Rightarrow> 'd world \<Rightarrow> (MessageResponse, 'd) client_result" where
  "callWebUsb c type params w = (Inl (Error ''WebUSB transport requires browser environment''), c, w)"

text \<open>The request each HTTP transport builds for one call.\<close>

definition desktop_call_request :: "KeepKeyClient \<Rightarrow> int \<Rightarrow> (string \<times> json) list \<Rightarrow> request" where
  "desktop_call_request c type params =
     (let url = or_string (cc_desktopUrl (kk_config c)) DEFAULT_URL;
          headers = (''Content-Type'', ''application/json'') #
                    (if truthy_string (cc_apiKey (kk_config c))
                     then [(''Authorization'', ''Bearer '' @ template_of (cc_apiKey (kk_config c)))]
                     else [])
      in Request ''POST'' (url @ ''/call'') headers
           (Some (JObj (spread [(''type'', JNum type)] params))))"

definition bridge_call_request :: "KeepKeyClient \<Rightarrow> int \<Rightarrow> (string \<times> json) list \<Rightarrow> request" where
  "bridge_call_request c type params =
     (let url = or_string (cc_bridgeUrl (kk_config c)) DEFAULT_URL
      in Request ''POST'' (url @ ''/call/'' @ template_js (kk_sessionId c))
           [(''Content-Type'', ''application/json'')]
           (Some (JObj [(''type'', JNum type), (''message'', JObj params)])))"

text \<open>The request \<open>call\<close> sends on the two HTTP kinds.\<close>

definition http_request :: "KeepKeyClient \<Rightarrow> int \<Rightarrow> (string \<times> json) list \<Rightarrow> request" where
  "http_request c type params =
     (if cc_connectionType (kk_config c) = KEEPKEY_DESKTOP
      then desktop_call_request c type params else bridge_call_request c type params)"

definition callDesktop ::
  "'d network \<Rightarrow> KeepKeyClient \<Rightarrow> int \<Rightarrow> (string \<times> json) list \<Rightarrow> 'd world
   \<Rightarrow> (MessageResponse, 'd) client_result" where
  "callDesktop net c type params w =
     (case fetch (net_call net) (desktop_call_request c type params) w of
        (r, w') \<Rightarrow> (response_json r, c, w'))"

definition callBridge ::
  "'d network \<Rightarrow> KeepKeyClient \<Rightarrow> int \<Rightarrow> (string \<times> json) list \<Rightarrow> 'd world
   \<Rightarrow> (MessageResponse, 'd) client_result" where
  "callBridge net c type params w =
     (case fetch (net_call net) (bridge_call_request c type params) w of
        (r, w') \<Rightarrow> (response_json r, c, w'))"

definition call ::
  "'d network \<Rightarrow> KeepKeyClient \<Rightarrow> int \<Rightarrow> (string \<times> json) list \<Rightarrow> 'd world
   \<Rightarrow> (MessageResponse, 'd) client_result" where
  "call net c type params w =
     (if \<not> kk_connected c then (Inl (Error ''Device not connected''), c, w)
      else (case cc_connectionType (kk_config c) of
              USB_HID \<Rightarrow> callUsbHid c type params w
            | WEBUSB \<Rightarrow> callWebUsb c type params w
            | KEEPKEY_DESKTOP \<Rightarrow> callDesktop net c type params w
            | KEEPKEY_BRIDGE \<Rightarrow> callBridge net c type params w
            | OtherConnection s \<Rightarrow>
                (Inl (Error (''Unsupported connection type: '' @ s)), c, w)))"

definition getFeatures :: "'d network \<Rightarrow> KeepKeyClient \<Rightarrow> 'd world \<Rightarrow> (json, 'd) client_result" where
  "getFeatures net c w =
     (case call net c MT_Initialize [] w of
        (Inl e, c', w') \<Rightarrow> (Inl e, c', w')
      | (Inr response, c', w') \<Rightarrow> (Inr (rsp_message response), c', w'))"

definition clearSession :: "'d network \<Rightarrow> KeepKeyClient \<Rightarrow> 'd world \<Rightarrow> (unit, 'd) client_result" where
  "clearSession net c w =
     (case call net c MT_ClearSession [] w of
        (Inl e, c', w') \<Rightarrow> (Inl e, c', w')
      | (Inr _, c', w') \<Rightarrow> (Inr (), c'\<lparr>kk_sessionId := JSNull\<rparr>, w'))"

definition disconnect :: "'d network \<Rightarrow> KeepKeyClient \<Rightarrow> 'd world \<Rightarrow> (unit, 'd) client_result" where
  "disconnect net c w =
     (if \<not> kk_connected c then (Inr (), c, w)
      else (case clearSession net c w of
              (Inl e, c', w') \<Rightarrow> (Inl (Error (''Failed to disconnect: '' @ error_message e)), c', w')
            | (Inr _, c', w') \<Rightarrow>
                (Inr (), c'\<lparr>kk_connected := False, kk_device := None, kk_sessionId := JSNull\<rparr>,
                 emit EV_DISCONNECTED w')))"

definition isConnected :: "KeepKeyClient \<Rightarrow> bool" where
  "isConnected c = (kk_connected c \<and> kk_device c \<noteq> None)"

definition sendPin ::
  "'d network \<Rightarrow> KeepKeyClient \<Rightarrow> string \<Rightarrow> 'd world \<Rightarrow> (MessageResponse, 'd) client_result" where
  "sendPin net c pin w = call net c MT_PinMatrixAck [(''pin'', JStr pin)] w"

definition sendButtonAck ::
  "'d network \<Rightarrow> KeepKeyClient \<Rightarrow> 'd world \<Rightarrow> (MessageResponse, 'd) client_result" where
  "sendButtonAck net c w = call net c MT_ButtonAck [] w"

definition callWithButtonAck ::
  "'d network \<Rightarrow> KeepKeyClient \<Rightarrow> int \<Rightarrow> (string \<times> json) list \<Rightarrow> 'd world
   \<Rightarrow> (MessageResponse, 'd) client_result" where
  "callWithButtonAck net c type params w =
     (case call net c type params w of
        (Inl e, c', w') \<Rightarrow> (Inl e, c', w')
      | (Inr response, c', w') \<Rightarrow>
          (if rsp_type response = MT_ButtonRequest
           then sendButtonAck net c' (emit EV_BUTTON_REQUEST w')
           else (Inr response, c', w')))"

definition callWithPinMatrix ::
  "'d network \<Rightarrow> KeepKeyClient \<Rightarrow> int \<Rightarrow> (string \<times> json) list \<Rightarrow> 'd world
   \<Rightarrow> (MessageResponse, 'd) client_result" where
  "callWithPinMatrix net c type params w =
     (case call net c type params w of
        (Inl e, c', w') \<Rightarrow> (Inl e, c', w')
      | (Inr response, c', w') \<Rightarrow>
          (if rsp_type response = MT_PinMatrixRequest
           then (Inr response, c', emit EV_PIN_REQUEST w')
           else (Inr response, c', w')))"

definition callWithRecovery ::
  "'d network \<Rightarrow> KeepKeyClient \<Rightarrow> int \<Rightarrow> (string \<times> json) list \<Rightarrow> 'd world
   \<Rightarrow> (MessageResponse, 'd) client_result" where
  "callWithRecovery net c type params w =
     (case call net c type params w of
        (Inl e, c', w') \<Rightarrow> (Inl e, c', w')
      | (Inr response, c', w') \<Rightarrow>
          (if rsp_type response = MT_WordRequest
           then (Inr response, c', emit EV_WORD_REQUEST w')
           else (Inr response, c', w')))"

text \<open>\<open>changePin\<close>, \<open>resetDevice\<close> and \<open>recoverDevice\<close> return \<open>void\<close>: the response is dropped.\<close>

definition discard :: "('a, 'd) client_result \<Rightarrow> (unit, 'd) client_result" where
  "discard r = (case r of (Inl e, c, w) \<Rightarrow> (Inl e, c, w) | (Inr _, c, w) \<Rightarrow> (Inr (), c, w))"

definition changePin :: "'d network \<Rightarrow> KeepKeyClient \<Rightarrow> bool \<Rightarrow> 'd world \<Rightarrow> (unit, 'd) client_result" where
  "changePin net c remove w =
     discard (callWithPinMatrix net c MT_ChangePin [(''remove'', JBool remove)] w)"

record ResetParams =
  rs_strength :: "int option"
  rs_passphrase_protection :: "bool option"
  rs_pin_protection :: "bool option"
  rs_label :: "string option"
  rs_language :: "string option"
  rs_skip_backup :: "bool option"

definition resetDevice_message :: "ResetParams \<Rightarrow> (string \<times> json) list" where
  "resetDevice_message params =
     [(''display_random'', JBool True),
      (''strength'', JNum (or_number (rs_strength params) 256)),
      (''passphrase_protection'', JBool (or_bool (rs_passphrase_protection params) False)),
      (''pin_protection'', JBool (or_bool (rs_pin_protection params) True)),
      (''label'', JStr (or_string (rs_label params) [])),
      (''language'', JStr (or_string (rs_language params) ''en-US'')),
      (''skip_backup'', JBool (or_bool (rs_skip_backup params) False))]"

definition resetDevice ::
  "'d network \<Rightarrow> KeepKeyClient \<Rightarrow> ResetParams \<Rightarrow> 'd world \<Rightarrow> (unit, 'd) client_result" where
  "resetDevice net c params w =
     discard (callWithButtonAck net c MT_ResetDevice (resetDevice_message params) w)"

record RecoverParams =
  rc_word_count :: int
  rc_passphrase_protection :: "bool option"
  rc_pin_protection :: "bool option"
  rc_label :: "string option"
  rc_language :: "string option"
  rc_enforce_wordlist :: "bool option"
  rc_type :: "int option"
  rc_dry_run :: "bool option"

definition recoverDevice_message :: "RecoverParams \<Rightarrow> (string \<times> json) list" where
  "recoverDevice_message params =
     [(''word_count'', JNum (rc_word_count params)),
      (''passphrase_protection'', JBool (or_bool (rc_passphrase_protection params) False)),
      (''pin_protection'', JBool (or_bool (rc_pin_protection params) True)),
      (''label'', JStr (or_string (rc_label params) [])),
      (''language'', JStr (or_string (rc_language params) ''en-US'')),
      (''enforce_wordlist'', JBool (rc_enforce_wordlist params \<noteq> Some False)),
      (''type'', JNum (or_number (rc_type params) 0)),
      (''dry_run'', JBool (or_bool (rc_dry_run params) False))]"

definition recoverDevice ::
  "'d network \<Rightarrow> KeepKeyClient \<Rightarrow> RecoverParams \<Rightarrow> 'd world \<Rightarrow> (unit, 'd) client_result" where
  "recoverDevice net c params w =
     discard (callWithRecovery net c MT_RecoveryDevice (recoverDevice_message params) w)"

subsection \<open>The remaining wrappers over call\<close>










subsection \<open>Connecting\<close>

text \<open>The three lines shared by the USB-HID, WebUSB and Bridge paths once the handle is
  stored and marked connected: fetch the features, store them and the label on the
  handle, emit the event.\<close>

definition cache_features ::
  "'d network \<Rightarrow> KeepKeyClient \<Rightarrow> KeepKeyDevice \<Rightarrow> 'd world \<Rightarrow> (KeepKeyDevice, 'd) client_result" where
  "cache_features net c device w =
     (case getFeatures net c w of
        (Inl e, c', w') \<Rightarrow> (Inl e, c', w')
      | (Inr features, c', w') \<Rightarrow>
          (let device1 = device\<lparr>kd_features := features\<rparr> in
           case get_prop features ''label'' of
             Inl e \<Rightarrow> (Inl e, c'\<lparr>kk_device := Some device1\<rparr>, w')
           | Inr l \<Rightarrow>
               (let device2 = device1\<lparr>kd_label := l\<rparr>
                in (Inr device2, c'\<lparr>kk_device := Some device2\<rparr>, emit EV_CONNECTED w'))))"

definition connectUsbHid :: "'d network \<Rightarrow> KeepKeyClient \<Rightarrow> 'd world \<Rightarrow> (KeepKeyDevice, 'd) client_result" where
  "connectUsbHid net c w =
     (let device = \<lparr>kd_path = or_string (cc_devicePath (kk_config c)) [],
                    kd_vendorId = cc_vendorId (kk_config c),
                    kd_productId = cc_productId (kk_config c),
                    kd_label = JUndefined, kd_features = JUndefined\<rparr>
      in cache_features net (c\<lparr>kk_device := Some device, kk_connected := True\<rparr>) device w)"

definition connectWebUsb :: "'d network \<Rightarrow> KeepKeyClient \<Rightarrow> 'd world \<Rightarrow> (KeepKeyDevice, 'd) client_result" where
  "connectWebUsb net c w =
     (let device = \<lparr>kd_path = ''webusb'',
                    kd_vendorId = cc_vendorId (kk_config c),
                    kd_productId = cc_productId (kk_config c),
                    kd_label = JUndefined, kd_features = JUndefined\<rparr>
      in cache_features net (c\<lparr>kk_device := Some device, kk_connected := True\<rparr>) device w)"

definition connectDesktop :: "'d network \<Rightarrow> KeepKeyClient \<Rightarrow> 'd world \<Rightarrow> (KeepKeyDevice, 'd) client_result" where
  "connectDesktop net c w =
     (let url = or_string (cc_desktopUrl (kk_config c)) DEFAULT_URL in
      case fetch (net_devices net) (Request ''GET'' (url @ ''/devices'') [] None) w of
        (r, w1) \<Rightarrow>
          (case response_json r of
             Inl e \<Rightarrow> (Inl e, c, w1)
           | Inr [] \<Rightarrow> (Inl (Error ''No KeepKey device found via Desktop''), c, w1)
           | Inr (d # ds) \<Rightarrow>
               (Inr d, c\<lparr>kk_device := Some d, kk_connected := True\<rparr>, emit EV_CONNECTED w1)))"

definition connectBridge :: "'d network \<Rightarrow> KeepKeyClient \<Rightarrow> 'd world \<Rightarrow> (KeepKeyDevice, 'd) client_result" where
  "connectBridge net c w =
     (let url = or_string (cc_bridgeUrl (kk_config c)) DEFAULT_URL in
      case fetch (net_enumerate net) (Request ''GET'' (url @ ''/enumerate'') [] None) w of
        (r, w1) \<Rightarrow>
          (case response_json r of
             Inl e \<Rightarrow> (Inl e, c, w1)
           | Inr [] \<Rightarrow> (Inl (Error ''No KeepKey device found via Bridge''), c, w1)
           | Inr (deviceInfo # ds) \<Rightarrow>
               (case fetch (net_acquire net)
                       (Request ''POST''
                          (url @ ''/acquire/'' @ bd_path deviceInfo @ ''/''
                               @ or_js (bd_session deviceInfo) ''null'') [] None) w1 of
                  (a, w2) \<Rightarrow>
                    (case response_json a of
                       Inl e \<Rightarrow> (Inl e, c, w2)
                     | Inr session \<Rightarrow>
                         (let device = \<lparr>kd_path = bd_path deviceInfo,
                                        kd_vendorId = cc_vendorId (kk_config c),
                                        kd_productId = cc_productId (kk_config c),
                                        kd_label = JUndefined, kd_features = JUndefined\<rparr>
                          in cache_features net
                               (c\<lparr>kk_sessionId := session, kk_device := Some device,
                                  kk_connected := True\<rparr>) device w2)))))"

definition connect :: "'d network \<Rightarrow> KeepKeyClient \<Rightarrow> 'd world \<Rightarrow> (KeepKeyDevice, 'd) client_result" where
  "connect net c w =
     (case (case cc_connectionType (kk_config c) of
              USB_HID \<Rightarrow> connectUsbHid net c w
            | WEBUSB \<Rightarrow> connectWebUsb net c w
            | KEEPKEY_DESKTOP \<Rightarrow> connectDesktop net c w
            | KEEPKEY_BRIDGE \<Rightarrow> connectBridge net c w
            | OtherConnection s \<Rightarrow> (Inl (Error (''Unsupported connection type: '' @ s)), c, w)) of
        (Inl e, c', w') \<Rightarrow> (Inl e, c', emit EV_FAILURE w')
      | (Inr d, c', w') \<Rightarrow> (Inr d, c', w'))"

section \<open>Bridge transport (class BridgeTransport)\<close>

record BridgeConfig =
  bc_url :: string
  bc_timeout :: int

text \<open>\<open>bt_listening\<close> stands for \<open>listenController !== null\<close>.\<close>

record BridgeTransport =
  bt_config :: BridgeConfig
  bt_session :: jstring
  bt_device :: "BridgeDevice option"
  bt_connected :: bool
  bt_listening :: bool









definition bt_isConnected :: "BridgeTransport \<Rightarrow> bool" where
  "bt_isConnected t = (bt_connected t \<and> bt_session t \<noteq> JSNull)"





section \<open>Invariants of the handles\<close>






section \<open>A simulated daemon for the concrete runs\<close>

text \<open>
  One device at \<open>/dev/hid0\<close>. The daemon's state is the session token it currently
  honours (empty: none) and whether the device waits for a PIN. \<open>acquire\<close> issues a new
  token; a call under another token is refused with status 400; a \<open>PinMatrixAck\<close> with
  no PIN request outstanding is answered by a \<open>Failure\<close> message, as the firmware does
  for an unexpected message; \<open>Initialize\<close> is answered by features with an empty device id.
\<close>

record sim =
  sim_session :: string
  sim_awaiting_pin :: bool

definition sim_device :: "sim \<Rightarrow> BridgeDevice" where
  "sim_device d = \<lparr>bd_path = ''/dev/hid0'',
                   bd_session = (if sim_session d = [] then JSNull else JSStr (sim_session d)),
                   bd_debugSession = None, bd_product = None, bd_vendor = None\<rparr>"

definition sim_features :: json where
  "sim_features = JObj [(''vendor'', JStr ''keepkey.com''), (''device_id'', JStr []),
                        (''label'', JStr ''K1''), (''initialized'', JBool True)]"

fun body_type :: "json option \<Rightarrow> int option" where
  "body_type (Some (JObj ((k, JNum n) # kvs))) = (if k = ''type'' then Some n else None)"
| "body_type _ = None"

definition sim_reply :: "int option \<Rightarrow> sim \<Rightarrow> MessageResponse \<times> sim" where
  "sim_reply ty d =
     (if ty = Some MT_Initialize then (\<lparr>rsp_type = MT_Features, rsp_message = sim_features\<rparr>, d)
      else if ty = Some MT_ChangePin
        then (\<lparr>rsp_type = MT_PinMatrixRequest, rsp_message = JObj [(''type'', JNum 1)]\<rparr>,
              d\<lparr>sim_awaiting_pin := True\<rparr>)
      else if ty = Some MT_PinMatrixAck
        then (if sim_awaiting_pin d
              then (\<lparr>rsp_type = MT_Success, rsp_message = JObj [(''message'', JStr ''PIN changed'')]\<rparr>,
                    d\<lparr>sim_awaiting_pin := False\<rparr>)
              else (\<lparr>rsp_type = MT_Failure, rsp_message = JObj [(''code'', JNum 1)]\<rparr>, d))
      else (\<lparr>rsp_type = MT_Success, rsp_message = JObj []\<rparr>, d))"

definition sim_net :: "sim network" where
  "sim_net =
     \<lparr>net_enumerate = (\<lambda>rq d. (Response True [] (Some [sim_device d]), d)),
      net_acquire = (\<lambda>rq d. (Response True [] (Some (JSStr (sim_session d @ ''+''))),
                               d\<lparr>sim_session := sim_session d @ ''+''\<rparr>)),
      net_release = (\<lambda>rq d. (Response True [] (Some ()), d\<lparr>sim_session := []\<rparr>)),
      net_call = (\<lambda>rq d.
         if req_url rq = DEFAULT_URL @ ''/call''
            \<or> req_url rq = DEFAULT_URL @ ''/call/'' @ sim_session d
         then (case sim_reply (body_type (req_body rq)) d of
                 (r, d') \<Rightarrow> (Response True [] (Some r), d'))
         else (Response False ''session not found'' None, d)),
      net_devices = (\<lambda>rq d.
         (Response True []
            (Some [\<lparr>kd_path = ''/dev/hid0'', kd_vendorId = USB_VENDOR_ID,
                    kd_productId = USB_PRODUCT_ID, kd_label = JUndefined,
                    kd_features = JUndefined\<rparr>]), d))\<rparr>"

definition sim_world :: "string \<Rightarrow> sim world" where
  "sim_world s = \<lparr>w_daemon = \<lparr>sim_session = s, sim_awaiting_pin = False\<rparr>, w_log = [], w_events = []\<rparr>"

definition config_for :: "ConnectionType \<Rightarrow> TransportConfig" where
  "config_for k = \<lparr>tc_connectionType = k, tc_devicePath = None, tc_vendorId = None,
                   tc_productId = None, tc_bridgeUrl = None, tc_desktopUrl = None,
                   tc_apiKey = None, tc_timeout = None\<rparr>"


text \<open>The runs used in the concrete statements: a client whose USB-HID connect failed; a
  Bridge client that connected and then cleared its session; a Desktop client that
  connected, asked for a PIN change and sent the PIN twice.\<close>

definition usb_run :: "(KeepKeyDevice, sim) client_result" where
  "usb_run = connect sim_net (new_KeepKeyClient (config_for USB_HID)) (sim_world [])"

definition bridge_run :: "(KeepKeyDevice, sim) client_result" where
  "bridge_run = connect sim_net (new_KeepKeyClient (config_for KEEPKEY_BRIDGE)) (sim_world [])"

definition desktop_run :: "(KeepKeyDevice, sim) client_result" where
  "desktop_run = connect sim_net (new_KeepKeyClient (config_for KEEPKEY_DESKTOP)) (sim_world [])"

definition pin_run1 :: "(unit, sim) client_result" where
  "pin_run1 = changePin sim_net (fst (snd desktop_run)) False (snd (snd desktop_run))"

definition pin_run2 :: "(MessageResponse, sim) client_result" where
  "pin_run2 = sendPin sim_net (fst (snd pin_run1)) ''1234'' (snd (snd pin_run1))"

definition pin_run3 :: "(MessageResponse, sim) client_result" where
  "pin_run3 = sendPin sim_net (fst (snd pin_run2)) ''1234'' (snd (snd pin_run2))"

definition pin_ack_request :: "string \<Rightarrow> request" where
  "pin_ack_request pin =
     Request ''POST'' ''http://localhost:1646/call'' [(''Content-Type'', ''application/json'')]
       (Some (JObj [(''type'', JNum 19), (''pin'', JStr pin)]))"




section \<open>Derivation paths: array to string and back\<close>

lemma of_char_digit_char: "d < 10 \<Longrightarrow> (of_char (digit_char d) :: nat) = 48 + d"
  by (simp add: digit_char_def)

lemma is_digit_digit_char: "d < 10 \<Longrightarrow> is_digit (digit_char d)"
  by (simp add: is_digit_def of_char_digit_char)

lemma digit_val_digit_char: "d < 10 \<Longrightarrow> digit_val (digit_char d) = int d"
  by (simp add: digit_val_def of_char_digit_char)

lemma dec_nat_digits: "\<forall>c \<in> set (dec_nat n). is_digit c"
proof (induction n rule: dec_nat.induct)
  case (1 n)
  show ?case
  proof (cases "n < 10")
    case True
    then show ?thesis by (simp add: dec_nat.simps [of n] is_digit_digit_char)
  next
    case False
    with 1 show ?thesis by (simp add: dec_nat.simps [of n] is_digit_digit_char)
  qed
qed

lemma dec_nat_nonempty: "dec_nat n \<noteq> []"
  by (subst dec_nat.simps) simp

lemma digits_value_snoc: "digits_value (ds @ [c]) = 10 * digits_value ds + digit_val c"
  by (simp add: digits_value_def)

lemma digits_value_dec_nat: "digits_value (dec_nat n) = int n"
proof (induction n rule: dec_nat.induct)
  case (1 n)
  show ?case
  proof (cases "n < 10")
    case True
    then show ?thesis
      by (simp add: dec_nat.simps [of n] digits_value_def digit_val_digit_char)
  next
    case False
    with 1 have "digits_value (dec_nat (n div 10)) = int (n div 10)" by simp
    with False show ?thesis
      by (simp add: dec_nat.simps [of n] digits_value_snoc digit_val_digit_char zdiv_int zmod_int)
  qed
qed

lemma is_digit_not_space: "is_digit c \<Longrightarrow> \<not> is_space c"
  by (auto simp: is_digit_def is_space_def)

lemma is_digit_not_sign: "is_digit c \<Longrightarrow> c \<noteq> CHR ''-'' \<and> c \<noteq> CHR ''+''"
  by (auto simp: is_digit_def)

lemma is_digit_not_mark: "is_digit c \<Longrightarrow> c \<noteq> apostrophe \<and> c \<noteq> CHR ''h'' \<and> c \<noteq> CHR ''/''"
  by (auto simp: is_digit_def apostrophe_def)

lemma parseInt10_digits:
  assumes "ds \<noteq> []" and "\<forall>c \<in> set ds. is_digit c"
  shows "parseInt10 ds = Num (digits_value ds)"
proof -
  from assms obtain c r where ds: "ds = c # r" by (cases ds) auto
  with assms have c: "is_digit c" by simp
  have dw: "dropWhile is_space ds = ds"
    using ds c by (simp add: is_digit_not_space)
  have tw: "takeWhile is_digit ds = ds"
    using assms(2) by (simp add: takeWhile_eq_all_conv)
  have s2: "(case ds of [] \<Rightarrow> ds | c # r \<Rightarrow> if c = CHR ''-'' \<or> c = CHR ''+'' then r else ds) = ds"
    using is_digit_not_sign [OF c] by (simp add: ds)
  have ng: "(case ds of [] \<Rightarrow> False | c # x \<Rightarrow> c = CHR ''-'') = False"
    using is_digit_not_sign [OF c] by (simp add: ds)
  show ?thesis
    unfolding parseInt10_def dw Let_def s2 ng tw using assms(1) by simp
qed

lemma parseInt10_dec_nat: "parseInt10 (dec_nat n) = Num (int n)"
  by (simp add: parseInt10_digits dec_nat_nonempty dec_nat_digits digits_value_dec_nat)

lemma strip_digits: "\<forall>c \<in> set ds. is_digit c \<Longrightarrow> strip_hardened_marks ds = ds"
  unfolding strip_hardened_marks_def by (rule filter_True) (simp add: is_digit_not_mark)

lemma strip_dec_nat: "strip_hardened_marks (dec_nat n) = dec_nat n"
  by (simp add: strip_digits dec_nat_digits)

lemma strip_append: "strip_hardened_marks (a @ b) = strip_hardened_marks a @ strip_hardened_marks b"
  by (simp add: strip_hardened_marks_def)

lemma dec_nat_last_digit: "is_digit (last (dec_nat n))"
  using dec_nat_digits dec_nat_nonempty last_in_set by blast

lemma dec_nat_not_endsWith:
  "\<not> endsWith (dec_nat n) [apostrophe]" "\<not> endsWith (dec_nat n) ''h''"
proof -
  have l: "last (dec_nat n) \<noteq> apostrophe" "last (dec_nat n) \<noteq> CHR ''h''"
    using dec_nat_last_digit [of n] is_digit_not_mark by blast+
  show "\<not> endsWith (dec_nat n) [apostrophe]"
    using l(1) by (auto simp: endsWith_def suffix_def)
  show "\<not> endsWith (dec_nat n) ''h''"
    using l(2) by (auto simp: endsWith_def suffix_def)
qed

lemma parse_render_index:
  assumes "0 \<le> n"
  shows "parse_index (render_index (Num n)) = Num n"
proof (cases "HARDENED_OFFSET \<le> n")
  case True
  then have r: "render_index (Num n) = dec_nat (nat (n - HARDENED_OFFSET)) @ [apostrophe]"
    by (simp add: render_index_def)
  have "strip_hardened_marks (render_index (Num n)) = dec_nat (nat (n - HARDENED_OFFSET))"
    unfolding r strip_append strip_dec_nat by (simp add: strip_hardened_marks_def)
  moreover have "endsWith (render_index (Num n)) [apostrophe]"
    unfolding r by (simp add: endsWith_def)
  ultimately show ?thesis
    using True by (simp add: parse_index_def parseInt10_dec_nat)
next
  case False
  with assms have r: "render_index (Num n) = dec_nat (nat n)"
    by (simp add: render_index_def)
  show ?thesis
    unfolding r using assms
    by (simp add: parse_index_def dec_nat_not_endsWith strip_dec_nat parseInt10_dec_nat)
qed

lemma render_index_no_slash:
  assumes "0 \<le> n"
  shows "CHR ''/'' \<notin> set (render_index (Num n))"
proof -
  have d: "\<And>k. CHR ''/'' \<notin> set (dec_nat k)"
    using dec_nat_digits is_digit_not_mark by blast
  show ?thesis
    using assms d by (auto simp: render_index_def Let_def apostrophe_def)
qed

lemma split_on_nonempty: "split_on sep s \<noteq> []"
  by (induction s) (auto split: list.splits)

lemma split_on_no_sep: "sep \<notin> set p \<Longrightarrow> split_on sep p = [p]"
  by (induction p) auto

lemma split_on_append_sep:
  "sep \<notin> set p \<Longrightarrow> split_on sep (p @ sep # rest) = p # split_on sep rest"
  by (induction p) auto

lemma split_on_join:
  assumes "ps \<noteq> []" and "\<forall>p \<in> set ps. sep \<notin> set p"
  shows "split_on sep (join [sep] ps) = ps"
  using assms
proof (induction "[sep]" ps rule: join.induct)
  case 1
  then show ?case by simp
next
  case (2 p)
  then show ?case by (simp add: split_on_no_sep)
next
  case (3 p q ps)
  then show ?case by (simp add: split_on_append_sep)
qed

lemma replace_first_m: "replace_first ''m/'' [] (''m/'' @ rest) = rest"
  by simp

lemma pathArrayToString_render:
  "pathArrayToString arr = ''m/'' @ join ''/'' (map render_index arr)"
  by (simp add: pathArrayToString_def render_index_def [abs_def])

lemma pathStringToArray_parse:
  "pathStringToArray path = map parse_index (split_on CHR ''/'' (replace_first ''m/'' [] path))"
  by (simp add: pathStringToArray_def parse_index_def [abs_def])

lemma path_array_string_array:
  assumes "arr \<noteq> []" and "\<forall>n \<in> set arr. 0 \<le> n"
  shows "pathStringToArray (pathArrayToString (map Num arr)) = map Num arr"
proof -
  let ?parts = "map render_index (map Num arr)"
  have ne: "?parts \<noteq> []" using assms(1) by simp
  have ns: "\<forall>p \<in> set ?parts. CHR ''/'' \<notin> set p"
    using assms(2) by (auto simp: render_index_no_slash)
  have s: "split_on CHR ''/'' (replace_first ''m/'' [] (pathArrayToString (map Num arr))) = ?parts"
    unfolding pathArrayToString_render replace_first_m using split_on_join [OF ne ns] by simp
  have "pathStringToArray (pathArrayToString (map Num arr)) = map parse_index ?parts"
    unfolding pathStringToArray_parse s ..
  also have "\<dots> = map Num arr"
    using assms(2) by (simp add: parse_render_index)
  finally show ?thesis .
qed

lemma parse_component:
  assumes "mark = apostrophe \<or> mark = CHR ''h''"
  shows "parse_index (component mark p) = encoded p"
proof (cases "snd p")
  case True
  have "strip_hardened_marks [mark] = []"
    using assms by (auto simp: strip_hardened_marks_def)
  then have "strip_hardened_marks (component mark p) = dec_nat (fst p)"
    using True by (simp add: component_def strip_append strip_dec_nat)
  moreover have "endsWith (component mark p) [apostrophe] \<or> endsWith (component mark p) ''h''"
    using assms True by (auto simp: component_def endsWith_def)
  ultimately show ?thesis
    using True by (simp add: parse_index_def parseInt10_dec_nat encoded_def)
next
  case False
  then show ?thesis
    by (simp add: component_def parse_index_def dec_nat_not_endsWith strip_dec_nat
        parseInt10_dec_nat encoded_def)
qed

lemma render_encoded:
  assumes "fst p < 2 ^ 31"
  shows "render_index (encoded p) = component apostrophe p"
  using assms by (cases "snd p") (simp_all add: render_index_def encoded_def component_def
      HARDENED_OFFSET_def)

lemma render_pair_of_index:
  assumes "0 \<le> n"
  shows "render_index (Num n) = component apostrophe (pair_of_index n)"
  using assms by (simp add: render_index_def component_def pair_of_index_def)

lemma component_no_slash:
  assumes "mark = apostrophe \<or> mark = CHR ''h''"
  shows "CHR ''/'' \<notin> set (component mark p)"
proof -
  have "CHR ''/'' \<notin> set (dec_nat (fst p))"
    using dec_nat_digits is_digit_not_mark by blast
  then show ?thesis
    using assms by (auto simp: component_def apostrophe_def)
qed

lemma path_of_pairs_parse:
  assumes "ps \<noteq> []" and "mark = apostrophe \<or> mark = CHR ''h''"
  shows "pathStringToArray (path_of_pairs mark ps) = map encoded ps"
proof -
  let ?parts = "map (component mark) ps"
  have ne: "?parts \<noteq> []" using assms(1) by simp
  have ns: "\<forall>p \<in> set ?parts. CHR ''/'' \<notin> set p"
    using component_no_slash [OF assms(2)] by auto
  have s: "split_on CHR ''/'' (replace_first ''m/'' [] (path_of_pairs mark ps)) = ?parts"
    unfolding path_of_pairs_def replace_first_m using split_on_join [OF ne ns] by simp
  show ?thesis
    unfolding pathStringToArray_parse s by (simp add: parse_component [OF assms(2)])
qed

lemma path_of_pairs_render:
  assumes "\<forall>p \<in> set ps. fst p < 2 ^ 31"
  shows "pathArrayToString (map encoded ps) = path_of_pairs apostrophe ps"
proof -
  have "map render_index (map encoded ps) = map (component apostrophe) ps"
    using assms by (simp add: render_encoded)
  then show ?thesis
    by (simp only: pathArrayToString_render path_of_pairs_def)
qed

text \<open>The array without components is written \<open>m/\<close>, which is read as one empty
  component: the whole-path equations below are for paths that have a component.\<close>

lemma pathArray_empty:
  "pathArrayToString [] = ''m/'' \<and> pathStringToArray ''m/'' = [NaN]"
  by (simp add: pathArrayToString_def pathStringToArray_def parseInt10_def
      strip_hardened_marks_def endsWith_def)

lemma path_of_pairs_example:
  "path_of_pairs (CHR ''h'') [(44, True), (0, False)] = ''m/44h/0''"
  "path_of_pairs apostrophe [(44, True), (0, False)] = ''m/44'' @ [apostrophe] @ ''/0''"
  by code_simp+

text \<open>
  Claim C9: for every derivation-path array of 32-bit indices, each element is written
  by \<open>pathArrayToString\<close> as the component of its (index, hardened-flag) pair and read
  back by \<open>pathStringToArray\<close> as the same element; and for every list of pairs, written
  with either mark, reading encodes a hardened index as the index plus \<open>0x80000000\<close>
  and writing the result gives the same pairs back. On paths that have a component the
  two functions are mutually inverse: array to string to array is the identity, and
  string to array to string returns the path of the same pairs.
\<close>

theorem path_index_flag_roundtrip:
  assumes "\<forall>n \<in> set arr. 0 \<le> n \<and> n < 2 ^ 32"
    and "\<forall>p \<in> set ps. fst p < 2 ^ 31"
    and "mark = apostrophe \<or> mark = CHR ''h''"
  shows "map render_index (map Num arr) = map (component apostrophe) (map pair_of_index arr)
       \<and> map parse_index (map render_index (map Num arr)) = map Num arr
       \<and> (arr \<noteq> [] \<longrightarrow> pathStringToArray (pathArrayToString (map Num arr)) = map Num arr)
       \<and> map parse_index (map (component mark) ps) = map encoded ps
       \<and> map render_index (map encoded ps) = map (component apostrophe) ps
       \<and> pathArrayToString (map encoded ps) = path_of_pairs apostrophe ps
       \<and> (ps \<noteq> [] \<longrightarrow>
            pathStringToArray (path_of_pairs mark ps) = map encoded ps
          \<and> pathArrayToString (pathStringToArray (path_of_pairs mark ps))
              = path_of_pairs apostrophe ps)"
proof (intro conjI impI)
  show "map render_index (map Num arr) = map (component apostrophe) (map pair_of_index arr)"
    using assms(1) by (simp add: render_pair_of_index)
  show "map parse_index (map render_index (map Num arr)) = map Num arr"
    using assms(1) by (simp add: parse_render_index)
  show "pathStringToArray (pathArrayToString (map Num arr)) = map Num arr" if "arr \<noteq> []"
    using that assms(1) by (simp add: path_array_string_array)
  show "map parse_index (map (component mark) ps) = map encoded ps"
    by (simp add: parse_component [OF assms(3)])
  show "map render_index (map encoded ps) = map (component apostrophe) ps"
    using assms(2) by (simp add: render_encoded)
  show "pathArrayToString (map encoded ps) = path_of_pairs apostrophe ps"
    by (rule path_of_pairs_render [OF assms(2)])
  show "pathStringToArray (path_of_pairs mark ps) = map encoded ps" if "ps \<noteq> []"
    by (rule path_of_pairs_parse [OF that assms(3)])
  show "pathArrayToString (pathStringToArray (path_of_pairs mark ps)) = path_of_pairs apostrophe ps"
    if "ps \<noteq> []"
    using path_of_pairs_parse [OF that assms(3)] path_of_pairs_render [OF assms(2)] by simp
qed

theorem path_index_flag_roundtrip_witness:
  "pathStringToArray (pathArrayToString [Num (44 + 0x80000000), Num 0x80000000, Num 0, Num 7])
     = [Num (44 + 0x80000000), Num 0x80000000, Num 0, Num 7]
   \<and> pathStringToArray ''m/44h/0'' = [Num (44 + 0x80000000), Num 0]
   \<and> pathArrayToString (pathStringToArray ''m/44h/0'') = ''m/44'' @ [apostrophe] @ ''/0''"
  using path_index_flag_roundtrip [of "[44 + 0x80000000, 0x80000000, 0, 7]"
      "[(44, True), (0, False)]" "CHR ''h''"]
  by (simp add: path_of_pairs_example encoded_def HARDENED_OFFSET_def)

section \<open>USB transport: framing and the closed handle\<close>







lemma make_header_ok:
  assumes "0 \<le> messageType" and "messageType \<le> 65535" and "int len < 2 ^ 32"
  shows "make_header messageType len = Inr (0x3f # uint16BE (nat messageType) @ uint32BE len)"
    and "length (0x3f # uint16BE (nat messageType) @ uint32BE len) = 7"
  using assms by (simp_all add: make_header_def uint16BE_def uint32BE_def)




text \<open>
  Were the handle open, the first \<open>read\<close> would return the empty buffer, the loop would
  stop there and \<open>sendMessage\<close> would return the empty buffer: a zero-length read ends
  the exchange without an error. No method of the source opens the handle.
\<close>

lemma sendMessage_open_handle:
  assumes "usb_connected t" and "usb_handle t \<noteq> None"
    and "0 \<le> messageType" and "messageType \<le> 65535" and "int (length message) < 2 ^ 32"
  shows "sendMessage t messageType message = Inr []"
proof -
  have w: "write_all t packets = Inr ()" for packets
    using assms(1,2) by (induction packets) (simp_all add: usb_write_def Let_def)
  have r: "read_response t [] 0 0 = Inr ([], 0)"
    using assms(1,2) by (subst read_response.simps) (simp add: usb_read_def)
  show ?thesis
    using make_header_ok(1) [OF assms(3-5)]
    by (simp add: sendMessage_def frame_message_def w r buffer_concat_def)
qed




section \<open>Device client and Bridge transport\<close>

subsection \<open>Unfolding sets and the concrete runs\<close>

lemmas sim_defs = sim_net_def sim_world_def sim_device_def sim_reply_def sim_features_def
  config_for_def new_KeepKeyClient_def DEFAULT_URL_def USB_VENDOR_ID_def USB_PRODUCT_ID_def
  TIMEOUT_OPERATION_def

lemmas mt_defs = MT_Initialize_def MT_Success_def MT_Failure_def MT_ChangePin_def
  MT_ResetDevice_def MT_Features_def MT_PinMatrixRequest_def MT_PinMatrixAck_def
  MT_ClearSession_def MT_ButtonRequest_def MT_ButtonAck_def MT_RecoveryDevice_def
  MT_WordRequest_def MT_Ping_def MT_WipeDevice_def MT_GetEntropy_def MT_Cancel_def
  MT_ApplySettings_def MT_PassphraseAck_def MT_WordAck_def

lemmas ev_defs = EV_CONNECTED_def EV_DISCONNECTED_def EV_BUTTON_REQUEST_def EV_PIN_REQUEST_def
  EV_WORD_REQUEST_def EV_FAILURE_def

lemmas client_defs = call_def callUsbHid_def callWebUsb_def callDesktop_def callBridge_def
  getFeatures_def clearSession_def disconnect_def sendPin_def sendButtonAck_def
  callWithButtonAck_def callWithPinMatrix_def callWithRecovery_def discard_def changePin_def
  cache_features_def connectUsbHid_def connectWebUsb_def connectDesktop_def connectBridge_def
  connect_def fetch_def emit_def spread_def Let_def
  desktop_call_request_def bridge_call_request_def


lemma usb_run_eval:
  "usb_run = (Inl (Error ''USB HID transport requires native module''),
     (new_KeepKeyClient (config_for USB_HID))
       \<lparr>kk_device := Some \<lparr>kd_path = [], kd_vendorId = 0x2b24, kd_productId = 1,
                            kd_label = JUndefined, kd_features = JUndefined\<rparr>,
        kk_connected := True\<rparr>,
     (sim_world [])\<lparr>w_events := [''device:failure'']\<rparr>)"
  by (simp add: usb_run_def client_defs sim_defs mt_defs ev_defs)

lemma desktop_run_eval:
  "desktop_run = (Inr \<lparr>kd_path = ''/dev/hid0'', kd_vendorId = 0x2b24, kd_productId = 1,
                       kd_label = JUndefined, kd_features = JUndefined\<rparr>,
     (new_KeepKeyClient (config_for KEEPKEY_DESKTOP))
       \<lparr>kk_device := Some \<lparr>kd_path = ''/dev/hid0'', kd_vendorId = 0x2b24, kd_productId = 1,
                            kd_label = JUndefined, kd_features = JUndefined\<rparr>,
        kk_connected := True\<rparr>,
     (sim_world [])\<lparr>w_log := [Request ''GET'' ''http://localhost:1646/devices'' [] None],
                    w_events := [''device:connected'']\<rparr>)"
  by (simp add: desktop_run_def client_defs sim_defs mt_defs ev_defs)

lemma bridge_run_eval:
  "bridge_run = (Inr \<lparr>kd_path = ''/dev/hid0'', kd_vendorId = 0x2b24, kd_productId = 1,
                       kd_label = JStr ''K1'', kd_features = sim_features\<rparr>,
     (new_KeepKeyClient (config_for KEEPKEY_BRIDGE))
       \<lparr>kk_device := Some \<lparr>kd_path = ''/dev/hid0'', kd_vendorId = 0x2b24, kd_productId = 1,
                            kd_label = JStr ''K1'', kd_features = sim_features\<rparr>,
        kk_connected := True, kk_sessionId := JSStr ''+''\<rparr>,
     \<lparr>w_daemon = \<lparr>sim_session = ''+'', sim_awaiting_pin = False\<rparr>,
      w_log = [Request ''GET'' ''http://localhost:1646/enumerate'' [] None,
               Request ''POST'' ''http://localhost:1646/acquire//dev/hid0/null'' [] None,
               Request ''POST'' ''http://localhost:1646/call/+''
                 [(''Content-Type'', ''application/json'')]
                 (Some (JObj [(''type'', JNum 0), (''message'', JObj [])]))],
      w_events = [''device:connected'']\<rparr>)"
  by (simp add: bridge_run_def client_defs sim_defs mt_defs ev_defs)

lemma pin_run1_eval:
  "pin_run1 = (Inr (), fst (snd desktop_run),
     \<lparr>w_daemon = \<lparr>sim_session = [], sim_awaiting_pin = True\<rparr>,
      w_log = [Request ''GET'' ''http://localhost:1646/devices'' [] None,
               Request ''POST'' ''http://localhost:1646/call''
                 [(''Content-Type'', ''application/json'')]
                 (Some (JObj [(''type'', JNum 4), (''remove'', JBool False)]))],
      w_events = [''device:connected'', ''device:pinRequest'']\<rparr>)"
  by (simp add: pin_run1_def desktop_run_eval client_defs sim_defs mt_defs ev_defs)

lemma pin_run2_eval:
  "pin_run2 = (Inr \<lparr>rsp_type = 2, rsp_message = JObj [(''message'', JStr ''PIN changed'')]\<rparr>,
     fst (snd desktop_run),
     \<lparr>w_daemon = \<lparr>sim_session = [], sim_awaiting_pin = False\<rparr>,
      w_log = [Request ''GET'' ''http://localhost:1646/devices'' [] None,
               Request ''POST'' ''http://localhost:1646/call''
                 [(''Content-Type'', ''application/json'')]
                 (Some (JObj [(''type'', JNum 4), (''remove'', JBool False)])),
               pin_ack_request ''1234''],
      w_events = [''device:connected'', ''device:pinRequest'']\<rparr>)"
  by (simp add: pin_run2_def pin_run1_eval desktop_run_eval client_defs sim_defs mt_defs ev_defs
      pin_ack_request_def)

lemma fetch_eq:
  "fetch endpoint rq w
     = (fst (endpoint rq (w_daemon w)),
        w\<lparr>w_daemon := snd (endpoint rq (w_daemon w)), w_log := w_log w @ [rq]\<rparr>)"
  by (simp add: fetch_def split: prod.splits)

lemma call_keeps_client: "fst (snd (call net c type params w)) = c"
  by (simp add: call_def callUsbHid_def callWebUsb_def callDesktop_def callBridge_def Let_def
      split: ConnectionType.splits prod.splits)

lemma call_http:
  assumes "kk_connected c"
    and "cc_connectionType (kk_config c) = KEEPKEY_DESKTOP \<or> cc_connectionType (kk_config c) = KEEPKEY_BRIDGE"
  shows "call net c type params w
         = (response_json (fst (net_call net (http_request c type params) (w_daemon w))), c,
            w\<lparr>w_daemon := snd (net_call net (http_request c type params) (w_daemon w)),
              w_log := w_log w @ [http_request c type params]\<rparr>)"
  using assms by (auto simp: call_def callDesktop_def callBridge_def fetch_eq http_request_def)


subsection \<open>Calls without a connection\<close>

text \<open>
  Claim C7: for every message type and payload, \<open>call\<close> on a client whose
  \<open>connected\<close> flag is false fails with the error \<open>Device not connected\<close>; the client
  and the world come back unchanged, so no request was sent and no device was touched.
\<close>

theorem call_not_connected:
  assumes "\<not> kk_connected c"
  shows "call net c type params w = (Inl (Error ''Device not connected''), c, w)"
  using assms by (simp add: call_def)

theorem call_not_connected_witness:
  "call sim_net (new_KeepKeyClient (config_for KEEPKEY_BRIDGE)) MT_Initialize [] (sim_world [])
     = (Inl (Error ''Device not connected''), new_KeepKeyClient (config_for KEEPKEY_BRIDGE),
        sim_world [])"
  using call_not_connected [of "new_KeepKeyClient (config_for KEEPKEY_BRIDGE)" sim_net
      MT_Initialize "[]" "sim_world []"]
  by (simp add: new_KeepKeyClient_def)

subsection \<open>PIN protection in resetDevice and recoverDevice\<close>

lemma or_bool_True: "or_bool x True = True"
  by (cases "(x, True)" rule: or_bool.cases) auto

lemma resetDevice_message_explicit:
  "resetDevice_message p =
     [(''display_random'', JBool True),
      (''strength'', JNum (or_number (rs_strength p) 256)),
      (''passphrase_protection'', JBool (or_bool (rs_passphrase_protection p) False)),
      (''pin_protection'', JBool True),
      (''label'', JStr (or_string (rs_label p) [])),
      (''language'', JStr (or_string (rs_language p) ''en-US'')),
      (''skip_backup'', JBool (or_bool (rs_skip_backup p) False))]"
  by (simp add: resetDevice_message_def or_bool_True)

lemma recoverDevice_message_explicit:
  "recoverDevice_message q =
     [(''word_count'', JNum (rc_word_count q)),
      (''passphrase_protection'', JBool (or_bool (rc_passphrase_protection q) False)),
      (''pin_protection'', JBool True),
      (''label'', JStr (or_string (rc_label q) [])),
      (''language'', JStr (or_string (rc_language q) ''en-US'')),
      (''enforce_wordlist'', JBool (rc_enforce_wordlist q \<noteq> Some False)),
      (''type'', JNum (or_number (rc_type q) 0)),
      (''dry_run'', JBool (or_bool (rc_dry_run q) False))]"
  by (simp add: recoverDevice_message_def or_bool_True)

lemma discard_world: "snd (snd (discard r)) = snd (snd r)"
  by (auto simp: discard_def split: prod.splits sum.splits)

lemma call_silent:
  assumes "\<not> kk_connected c
           \<or> (cc_connectionType (kk_config c) \<noteq> KEEPKEY_DESKTOP
              \<and> cc_connectionType (kk_config c) \<noteq> KEEPKEY_BRIDGE)"
  shows "\<exists>e. call net c type params w = (Inl e, c, w)"
  using assms
  by (cases "cc_connectionType (kk_config c)")
     (auto simp: call_def callUsbHid_def callWebUsb_def)

lemma callWithButtonAck_log:
  assumes "kk_connected c"
    and "cc_connectionType (kk_config c) = KEEPKEY_DESKTOP \<or> cc_connectionType (kk_config c) = KEEPKEY_BRIDGE"
  shows "w_log (snd (snd (callWithButtonAck net c type params w)))
           = w_log w @ [http_request c type params]
         \<or> w_log (snd (snd (callWithButtonAck net c type params w)))
           = w_log w @ [http_request c type params, http_request c MT_ButtonAck []]"
  using assms
  by (auto simp: callWithButtonAck_def sendButtonAck_def call_http emit_def split: sum.splits)

lemma callWithRecovery_log:
  assumes "kk_connected c"
    and "cc_connectionType (kk_config c) = KEEPKEY_DESKTOP \<or> cc_connectionType (kk_config c) = KEEPKEY_BRIDGE"
  shows "w_log (snd (snd (callWithRecovery net c type params w)))
           = w_log w @ [http_request c type params]"
  using assms
  by (auto simp: callWithRecovery_def call_http emit_def split: sum.splits)

lemma bridge_body:
  "cc_connectionType (kk_config c) = KEEPKEY_BRIDGE \<Longrightarrow>
   req_body (http_request c type params) = Some (JObj [(''type'', JNum type), (''message'', JObj params)])"
  by (simp add: http_request_def bridge_call_request_def Let_def)

lemma desktop_body:
  "cc_connectionType (kk_config c) = KEEPKEY_DESKTOP \<Longrightarrow>
   req_body (http_request c type params) = Some (JObj (spread [(''type'', JNum type)] params))"
  by (simp add: http_request_def desktop_call_request_def Let_def)

lemma spread_reset:
  "spread [(''type'', JNum type)] (resetDevice_message p) = (''type'', JNum type) # resetDevice_message p"
  by (simp add: spread_def resetDevice_message_def)

lemma spread_recover:
  "spread [(''type'', JNum type)] (recoverDevice_message q) =
     [(''type'', JNum (or_number (rc_type q) 0)),
      (''word_count'', JNum (rc_word_count q)),
      (''passphrase_protection'', JBool (or_bool (rc_passphrase_protection q) False)),
      (''pin_protection'', JBool True),
      (''label'', JStr (or_string (rc_label q) [])),
      (''language'', JStr (or_string (rc_language q) ''en-US'')),
      (''enforce_wordlist'', JBool (rc_enforce_wordlist q \<noteq> Some False)),
      (''dry_run'', JBool (or_bool (rc_dry_run q) False))]"
  by (simp add: spread_def recoverDevice_message_explicit)

lemma spread_nil: "spread a [] = a"
  by (simp add: spread_def)

lemma reset_log_bridge:
  assumes "kk_connected c" and "cc_connectionType (kk_config c) = KEEPKEY_BRIDGE"
  shows "\<exists>rq rest. w_log (snd (snd (resetDevice net c p w))) = w_log w @ rq # rest
            \<and> req_body rq = Some (JObj [(''type'', JNum 14), (''message'', JObj (resetDevice_message p))])
            \<and> (\<forall>r \<in> set rest. req_body r = Some (JObj [(''type'', JNum 27), (''message'', JObj [])]))"
proof -
  let ?rq = "http_request c MT_ResetDevice (resetDevice_message p)"
  let ?ack = "http_request c MT_ButtonAck []"
  have b: "req_body ?rq = Some (JObj [(''type'', JNum 14), (''message'', JObj (resetDevice_message p))])"
    "req_body ?ack = Some (JObj [(''type'', JNum 27), (''message'', JObj [])])"
    using assms(2) by (simp_all add: bridge_body MT_ResetDevice_def MT_ButtonAck_def)
  from callWithButtonAck_log [of c net MT_ResetDevice "resetDevice_message p" w] assms
  have "w_log (snd (snd (resetDevice net c p w))) = w_log w @ ?rq # []
        \<or> w_log (snd (snd (resetDevice net c p w))) = w_log w @ ?rq # [?ack]"
    by (simp add: resetDevice_def discard_world)
  then show ?thesis
  proof
    assume "w_log (snd (snd (resetDevice net c p w))) = w_log w @ ?rq # []"
    with b show ?thesis by (intro exI [of _ ?rq] exI [of _ "[]"]) simp
  next
    assume "w_log (snd (snd (resetDevice net c p w))) = w_log w @ ?rq # [?ack]"
    with b show ?thesis by (intro exI [of _ ?rq] exI [of _ "[?ack]"]) simp
  qed
qed

lemma reset_log_desktop:
  assumes "kk_connected c" and "cc_connectionType (kk_config c) = KEEPKEY_DESKTOP"
  shows "\<exists>rq rest. w_log (snd (snd (resetDevice net c p w))) = w_log w @ rq # rest
            \<and> req_body rq = Some (JObj ((''type'', JNum 14) # resetDevice_message p))
            \<and> (\<forall>r \<in> set rest. req_body r = Some (JObj [(''type'', JNum 27)]))"
proof -
  let ?rq = "http_request c MT_ResetDevice (resetDevice_message p)"
  let ?ack = "http_request c MT_ButtonAck []"
  have b: "req_body ?rq = Some (JObj ((''type'', JNum 14) # resetDevice_message p))"
    "req_body ?ack = Some (JObj [(''type'', JNum 27)])"
    using assms(2)
    by (simp_all add: desktop_body spread_reset spread_nil MT_ResetDevice_def MT_ButtonAck_def)
  from callWithButtonAck_log [of c net MT_ResetDevice "resetDevice_message p" w] assms
  have "w_log (snd (snd (resetDevice net c p w))) = w_log w @ ?rq # []
        \<or> w_log (snd (snd (resetDevice net c p w))) = w_log w @ ?rq # [?ack]"
    by (simp add: resetDevice_def discard_world)
  then show ?thesis
  proof
    assume "w_log (snd (snd (resetDevice net c p w))) = w_log w @ ?rq # []"
    with b show ?thesis by (intro exI [of _ ?rq] exI [of _ "[]"]) simp
  next
    assume "w_log (snd (snd (resetDevice net c p w))) = w_log w @ ?rq # [?ack]"
    with b show ?thesis by (intro exI [of _ ?rq] exI [of _ "[?ack]"]) simp
  qed
qed

lemma recover_log_bridge:
  assumes "kk_connected c" and "cc_connectionType (kk_config c) = KEEPKEY_BRIDGE"
  shows "\<exists>rq. w_log (snd (snd (recoverDevice net c q w))) = w_log w @ [rq]
            \<and> req_body rq = Some (JObj [(''type'', JNum 45), (''message'', JObj (recoverDevice_message q))])"
  using callWithRecovery_log [of c net MT_RecoveryDevice "recoverDevice_message q" w] assms
  by (simp add: recoverDevice_def discard_world bridge_body MT_RecoveryDevice_def)

lemma recover_log_desktop:
  assumes "kk_connected c" and "cc_connectionType (kk_config c) = KEEPKEY_DESKTOP"
  shows "\<exists>rq. w_log (snd (snd (recoverDevice net c q w))) = w_log w @ [rq]
            \<and> req_body rq = Some (JObj (spread [(''type'', JNum 45)] (recoverDevice_message q)))"
  using callWithRecovery_log [of c net MT_RecoveryDevice "recoverDevice_message q" w] assms
  by (simp add: recoverDevice_def discard_world desktop_body MT_RecoveryDevice_def)

lemma setup_silent:
  assumes "\<not> kk_connected c
           \<or> (cc_connectionType (kk_config c) \<noteq> KEEPKEY_DESKTOP
              \<and> cc_connectionType (kk_config c) \<noteq> KEEPKEY_BRIDGE)"
  shows "w_log (snd (snd (resetDevice net c p w))) = w_log w"
    and "w_log (snd (snd (recoverDevice net c q w))) = w_log w"
proof -
  from call_silent [OF assms, of net MT_ResetDevice "resetDevice_message p" w]
  show "w_log (snd (snd (resetDevice net c p w))) = w_log w"
    by (auto simp: resetDevice_def discard_world callWithButtonAck_def)
  from call_silent [OF assms, of net MT_RecoveryDevice "recoverDevice_message q" w]
  show "w_log (snd (snd (recoverDevice net c q w))) = w_log w"
    by (auto simp: recoverDevice_def discard_world callWithRecovery_def)
qed

text \<open>
  Claim C10: for every parameter record, the message built by \<open>resetDevice\<close> and by
  \<open>recoverDevice\<close> has \<open>pin_protection = true\<close> (\<open>params.pin_protection || true\<close> is
  true whatever the caller passed), and that message is what goes out. On a connected
  Bridge client the first request of \<open>resetDevice\<close> has the body
  \<open>{type: 14, message: {display_random: true, strength, passphrase_protection,
  pin_protection: true, label, language, skip_backup}}\<close>, any further request is a
  \<open>ButtonAck\<close> with an empty message, and the one request of \<open>recoverDevice\<close> has the body
  \<open>{type: 45, message: {word_count, passphrase_protection, pin_protection: true, \<dots>}}\<close>.
  On a connected Desktop client the message's properties are spread into the body
  beside \<open>type\<close>, \<open>pin_protection: true\<close> among them (for \<open>recoverDevice\<close> the
  message's own \<open>type\<close> property takes the place of the message type). On a client that is not connected,
  or of another connection type, the two operations send nothing.
\<close>

theorem pin_protection_always_true:
  "map_of (resetDevice_message p) ''pin_protection'' = Some (JBool True)
   \<and> map_of (recoverDevice_message q) ''pin_protection'' = Some (JBool True)
   \<and> (kk_connected c \<and> cc_connectionType (kk_config c) = KEEPKEY_BRIDGE \<longrightarrow>
        (\<exists>rq rest. w_log (snd (snd (resetDevice net c p w))) = w_log w @ rq # rest
           \<and> req_body rq
               = Some (JObj [(''type'', JNum 14),
                    (''message'', JObj
                       [(''display_random'', JBool True),
                        (''strength'', JNum (or_number (rs_strength p) 256)),
                        (''passphrase_protection'', JBool (or_bool (rs_passphrase_protection p) False)),
                        (''pin_protection'', JBool True),
                        (''label'', JStr (or_string (rs_label p) [])),
                        (''language'', JStr (or_string (rs_language p) ''en-US'')),
                        (''skip_backup'', JBool (or_bool (rs_skip_backup p) False))])])
           \<and> (\<forall>r \<in> set rest. req_body r = Some (JObj [(''type'', JNum 27), (''message'', JObj [])])))
      \<and> (\<exists>rq. w_log (snd (snd (recoverDevice net c q w))) = w_log w @ [rq]
           \<and> req_body rq
               = Some (JObj [(''type'', JNum 45),
                    (''message'', JObj
                       [(''word_count'', JNum (rc_word_count q)),
                        (''passphrase_protection'', JBool (or_bool (rc_passphrase_protection q) False)),
                        (''pin_protection'', JBool True),
                        (''label'', JStr (or_string (rc_label q) [])),
                        (''language'', JStr (or_string (rc_language q) ''en-US'')),
                        (''enforce_wordlist'', JBool (rc_enforce_wordlist q \<noteq> Some False)),
                        (''type'', JNum (or_number (rc_type q) 0)),
                        (''dry_run'', JBool (or_bool (rc_dry_run q) False))])])))
   \<and> (kk_connected c \<and> cc_connectionType (kk_config c) = KEEPKEY_DESKTOP \<longrightarrow>
        (\<exists>rq rest. w_log (snd (snd (resetDevice net c p w))) = w_log w @ rq # rest
           \<and> req_body rq
               = Some (JObj
                    [(''type'', JNum 14),
                     (''display_random'', JBool True),
                     (''strength'', JNum (or_number (rs_strength p) 256)),
                     (''passphrase_protection'', JBool (or_bool (rs_passphrase_protection p) False)),
                     (''pin_protection'', JBool True),
                     (''label'', JStr (or_string (rs_label p) [])),
                     (''language'', JStr (or_string (rs_language p) ''en-US'')),
                     (''skip_backup'', JBool (or_bool (rs_skip_backup p) False))])
           \<and> (\<forall>r \<in> set rest. req_body r = Some (JObj [(''type'', JNum 27)])))
      \<and> (\<exists>rq. w_log (snd (snd (recoverDevice net c q w))) = w_log w @ [rq]
           \<and> req_body rq
               = Some (JObj
                    [(''type'', JNum (or_number (rc_type q) 0)),
                     (''word_count'', JNum (rc_word_count q)),
                     (''passphrase_protection'', JBool (or_bool (rc_passphrase_protection q) False)),
                     (''pin_protection'', JBool True),
                     (''label'', JStr (or_string (rc_label q) [])),
                     (''language'', JStr (or_string (rc_language q) ''en-US'')),
                     (''enforce_wordlist'', JBool (rc_enforce_wordlist q \<noteq> Some False)),
                     (''dry_run'', JBool (or_bool (rc_dry_run q) False))])))
   \<and> (\<not> kk_connected c
       \<or> (cc_connectionType (kk_config c) \<noteq> KEEPKEY_DESKTOP
          \<and> cc_connectionType (kk_config c) \<noteq> KEEPKEY_BRIDGE) \<longrightarrow>
        w_log (snd (snd (resetDevice net c p w))) = w_log w
        \<and> w_log (snd (snd (recoverDevice net c q w))) = w_log w)"
proof (intro conjI impI)
  show "map_of (resetDevice_message p) ''pin_protection'' = Some (JBool True)"
    by (simp add: resetDevice_message_explicit)
  show "map_of (recoverDevice_message q) ''pin_protection'' = Some (JBool True)"
    by (simp add: recoverDevice_message_explicit)
next
  assume a: "kk_connected c \<and> cc_connectionType (kk_config c) = KEEPKEY_BRIDGE"
  from a reset_log_bridge [of c net p w]
  show "\<exists>rq rest. w_log (snd (snd (resetDevice net c p w))) = w_log w @ rq # rest
           \<and> req_body rq
               = Some (JObj [(''type'', JNum 14),
                    (''message'', JObj
                       [(''display_random'', JBool True),
                        (''strength'', JNum (or_number (rs_strength p) 256)),
                        (''passphrase_protection'', JBool (or_bool (rs_passphrase_protection p) False)),
                        (''pin_protection'', JBool True),
                        (''label'', JStr (or_string (rs_label p) [])),
                        (''language'', JStr (or_string (rs_language p) ''en-US'')),
                        (''skip_backup'', JBool (or_bool (rs_skip_backup p) False))])])
           \<and> (\<forall>r \<in> set rest. req_body r = Some (JObj [(''type'', JNum 27), (''message'', JObj [])]))"
    by (simp only: resetDevice_message_explicit [of p])
  from a recover_log_bridge [of c net q w]
  show "\<exists>rq. w_log (snd (snd (recoverDevice net c q w))) = w_log w @ [rq]
           \<and> req_body rq
               = Some (JObj [(''type'', JNum 45),
                    (''message'', JObj
                       [(''word_count'', JNum (rc_word_count q)),
                        (''passphrase_protection'', JBool (or_bool (rc_passphrase_protection q) False)),
                        (''pin_protection'', JBool True),
                        (''label'', JStr (or_string (rc_label q) [])),
                        (''language'', JStr (or_string (rc_language q) ''en-US'')),
                        (''enforce_wordlist'', JBool (rc_enforce_wordlist q \<noteq> Some False)),
                        (''type'', JNum (or_number (rc_type q) 0)),
                        (''dry_run'', JBool (or_bool (rc_dry_run q) False))])])"
    by (simp only: recoverDevice_message_explicit [of q])
next
  assume a: "kk_connected c \<and> cc_connectionType (kk_config c) = KEEPKEY_DESKTOP"
  from a reset_log_desktop [of c net p w]
  show "\<exists>rq rest. w_log (snd (snd (resetDevice net c p w))) = w_log w @ rq # rest
           \<and> req_body rq
               = Some (JObj
                    [(''type'', JNum 14),
                     (''display_random'', JBool True),
                     (''strength'', JNum (or_number (rs_strength p) 256)),
                     (''passphrase_protection'', JBool (or_bool (rs_passphrase_protection p) False)),
                     (''pin_protection'', JBool True),
                     (''label'', JStr (or_string (rs_label p) [])),
                     (''language'', JStr (or_string (rs_language p) ''en-US'')),
                     (''skip_backup'', JBool (or_bool (rs_skip_backup p) False))])
           \<and> (\<forall>r \<in> set rest. req_body r = Some (JObj [(''type'', JNum 27)]))"
    by (simp only: resetDevice_message_explicit [of p])
  from a recover_log_desktop [of c net q w]
  obtain rq where rq: "w_log (snd (snd (recoverDevice net c q w))) = w_log w @ [rq]"
    "req_body rq = Some (JObj (spread [(''type'', JNum 45)] (recoverDevice_message q)))"
    by blast
  show "\<exists>rq. w_log (snd (snd (recoverDevice net c q w))) = w_log w @ [rq]
           \<and> req_body rq
               = Some (JObj
                    [(''type'', JNum (or_number (rc_type q) 0)),
                     (''word_count'', JNum (rc_word_count q)),
                     (''passphrase_protection'', JBool (or_bool (rc_passphrase_protection q) False)),
                     (''pin_protection'', JBool True),
                     (''label'', JStr (or_string (rc_label q) [])),
                     (''language'', JStr (or_string (rc_language q) ''en-US'')),
                     (''enforce_wordlist'', JBool (rc_enforce_wordlist q \<noteq> Some False)),
                     (''dry_run'', JBool (or_bool (rc_dry_run q) False))])"
    using rq by (intro exI [of _ rq] conjI) (simp_all add: spread_recover)
next
  assume a: "\<not> kk_connected c
       \<or> (cc_connectionType (kk_config c) \<noteq> KEEPKEY_DESKTOP
          \<and> cc_connectionType (kk_config c) \<noteq> KEEPKEY_BRIDGE)"
  from setup_silent [OF a] show "w_log (snd (snd (resetDevice net c p w))) = w_log w"
    and "w_log (snd (snd (recoverDevice net c q w))) = w_log w" .
qed

theorem pin_protection_always_true_witness:
  "req_body (hd (w_log (snd (snd (resetDevice sim_net (fst (snd bridge_run))
        \<lparr>rs_strength = None, rs_passphrase_protection = None, rs_pin_protection = Some False,
         rs_label = None, rs_language = None, rs_skip_backup = None\<rparr>
        ((snd (snd bridge_run))\<lparr>w_log := []\<rparr>))))))
     = Some (JObj [(''type'', JNum 14),
          (''message'', JObj
             [(''display_random'', JBool True), (''strength'', JNum 256),
              (''passphrase_protection'', JBool False), (''pin_protection'', JBool True),
              (''label'', JStr []), (''language'', JStr ''en-US''),
              (''skip_backup'', JBool False)])])
   \<and> map req_body (w_log (snd (snd (recoverDevice sim_net (fst (snd desktop_run))
        \<lparr>rc_word_count = 12, rc_passphrase_protection = None, rc_pin_protection = Some False,
         rc_label = None, rc_language = None, rc_enforce_wordlist = None, rc_type = None,
         rc_dry_run = None\<rparr>
        ((snd (snd desktop_run))\<lparr>w_log := []\<rparr>)))))
     = [Some (JObj [(''type'', JNum 0), (''word_count'', JNum 12),
              (''passphrase_protection'', JBool False), (''pin_protection'', JBool True),
              (''label'', JStr []), (''language'', JStr ''en-US''),
              (''enforce_wordlist'', JBool True), (''dry_run'', JBool False)])]
   \<and> w_log (snd (snd (resetDevice sim_net (new_KeepKeyClient (config_for KEEPKEY_BRIDGE))
        \<lparr>rs_strength = None, rs_passphrase_protection = None, rs_pin_protection = Some False,
         rs_label = None, rs_language = None, rs_skip_backup = None\<rparr> (sim_world [])))) = []"
proof -
  let ?p = "\<lparr>rs_strength = None, rs_passphrase_protection = None, rs_pin_protection = Some False,
         rs_label = None, rs_language = None, rs_skip_backup = None\<rparr>"
  let ?q = "\<lparr>rc_word_count = 12, rc_passphrase_protection = None, rc_pin_protection = Some False,
         rc_label = None, rc_language = None, rc_enforce_wordlist = None, rc_type = None,
         rc_dry_run = None\<rparr>"
  have b: "kk_connected (fst (snd bridge_run))
           \<and> cc_connectionType (kk_config (fst (snd bridge_run))) = KEEPKEY_BRIDGE"
    by (simp add: bridge_run_eval sim_defs)
  have d: "kk_connected (fst (snd desktop_run))
           \<and> cc_connectionType (kk_config (fst (snd desktop_run))) = KEEPKEY_DESKTOP"
    by (simp add: desktop_run_eval sim_defs)
  have n: "\<not> kk_connected (new_KeepKeyClient (config_for KEEPKEY_BRIDGE))"
    "w_log (sim_world []) = []"
    by (simp_all add: new_KeepKeyClient_def sim_world_def)
  show ?thesis
    using pin_protection_always_true [of ?p ?q "fst (snd bridge_run)" sim_net
        "(snd (snd bridge_run))\<lparr>w_log := []\<rparr>"]
      pin_protection_always_true [of ?p ?q "fst (snd desktop_run)" sim_net
        "(snd (snd desktop_run))\<lparr>w_log := []\<rparr>"]
      pin_protection_always_true [of ?p ?q "new_KeepKeyClient (config_for KEEPKEY_BRIDGE)" sim_net
        "sim_world []"]
      b d n
    by auto
qed

subsection \<open>disconnect\<close>

lemma disconnect_cases:
  "disconnect net c w =
     (if \<not> kk_connected c then (Inr (), c, w)
      else (case call net c MT_ClearSession [] w of
              (Inl e, c', w') \<Rightarrow> (Inl (Error (''Failed to disconnect: '' @ error_message e)), c, w')
            | (Inr r, c', w') \<Rightarrow>
                (Inr (), c\<lparr>kk_connected := False, kk_device := None, kk_sessionId := JSNull\<rparr>,
                 emit EV_DISCONNECTED w')))"
  using call_keeps_client [of net c MT_ClearSession "[]" w]
  by (auto simp: disconnect_def clearSession_def split: prod.splits sum.splits)

text \<open>
  Claim C6, as stated, on the client left behind by a failed USB-HID \<open>connect\<close> (which
  marks the client connected before the initialization call fails): \<open>disconnect\<close> throws
  and the client is still connected afterwards.
\<close>

theorem disconnect_throws_counterexample:
  "kk_connected (fst (snd usb_run))
   \<and> fst (disconnect sim_net (fst (snd usb_run)) (snd (snd usb_run)))
       = Inl (Error ''Failed to disconnect: USB HID transport requires native module'')
   \<and> kk_connected (fst (snd (disconnect sim_net (fst (snd usb_run)) (snd (snd usb_run)))))"
  by (simp add: usb_run_eval client_defs sim_defs mt_defs ev_defs)

text \<open>
  Claim C6 (amended): \<open>disconnect\<close> on a client that is not connected is a no-op that
  does not throw. On a connected client it first clears the session with a
  \<open>ClearSession\<close> call: when that call fails with an error \<open>e\<close>, \<open>disconnect\<close> throws
  \<open>Failed to disconnect: \<close> followed by the message of \<open>e\<close> and leaves the client as it
  was, still connected; when the call succeeds, \<open>disconnect\<close> returns normally with the
  connected flag, the device and the session cleared and the disconnected event emitted.
\<close>

theorem disconnect_outcomes:
  "(\<not> kk_connected c \<longrightarrow> disconnect net c w = (Inr (), c, w))
   \<and> (kk_connected c \<and> call net c MT_ClearSession [] w = (Inl e, c1, w1) \<longrightarrow>
        disconnect net c w = (Inl (Error (''Failed to disconnect: '' @ error_message e)), c, w1))
   \<and> (kk_connected c \<and> call net c MT_ClearSession [] w = (Inr r, c2, w2) \<longrightarrow>
        disconnect net c w
          = (Inr (), c\<lparr>kk_connected := False, kk_device := None, kk_sessionId := JSNull\<rparr>,
             emit EV_DISCONNECTED w2))"
  by (simp add: disconnect_cases)

theorem disconnect_outcomes_witness:
  "disconnect sim_net (new_KeepKeyClient (config_for KEEPKEY_BRIDGE)) (sim_world [])
     = (Inr (), new_KeepKeyClient (config_for KEEPKEY_BRIDGE), sim_world [])
   \<and> fst (disconnect sim_net (fst (snd usb_run)) (snd (snd usb_run)))
       = Inl (Error ''Failed to disconnect: USB HID transport requires native module'')
   \<and> fst (disconnect sim_net (fst (snd bridge_run)) (snd (snd bridge_run))) = Inr ()
   \<and> \<not> kk_connected (fst (snd (disconnect sim_net (fst (snd bridge_run)) (snd (snd bridge_run)))))"
proof -
  have a: "\<not> kk_connected (new_KeepKeyClient (config_for KEEPKEY_BRIDGE))"
    by (simp add: new_KeepKeyClient_def)
  have b: "kk_connected (fst (snd usb_run))
           \<and> call sim_net (fst (snd usb_run)) MT_ClearSession [] (snd (snd usb_run))
               = (Inl (Error ''USB HID transport requires native module''),
                  fst (snd usb_run), snd (snd usb_run))"
    by (simp add: usb_run_eval client_defs sim_defs)
  have c: "kk_connected (fst (snd bridge_run))
           \<and> call sim_net (fst (snd bridge_run)) MT_ClearSession [] (snd (snd bridge_run))
               = (Inr \<lparr>rsp_type = 2, rsp_message = JObj []\<rparr>, fst (snd bridge_run),
                  (snd (snd bridge_run))
                    \<lparr>w_log := w_log (snd (snd bridge_run)) @
                       [Request ''POST'' ''http://localhost:1646/call/+''
                          [(''Content-Type'', ''application/json'')]
                          (Some (JObj [(''type'', JNum 24), (''message'', JObj [])]))]\<rparr>)"
    by (simp add: bridge_run_eval client_defs sim_defs mt_defs)
  show ?thesis
    using disconnect_outcomes [of "new_KeepKeyClient (config_for KEEPKEY_BRIDGE)" sim_net "sim_world []"]
      disconnect_outcomes [of "fst (snd usb_run)" sim_net "snd (snd usb_run)"
        "Error ''USB HID transport requires native module''" "fst (snd usb_run)" "snd (snd usb_run)"]
      disconnect_outcomes [of "fst (snd bridge_run)" sim_net "snd (snd bridge_run)" _ _ _
        "\<lparr>rsp_type = 2, rsp_message = JObj []\<rparr>" "fst (snd bridge_run)"]
      a b c
    by simp
qed

subsection \<open>sendPin\<close>

text \<open>
  Claim C4, as stated, on a Desktop client: \<open>changePin\<close> is answered by a
  \<open>PinMatrixRequest\<close> (the PIN event is emitted), a first \<open>sendPin\<close> succeeds, and a
  second \<open>sendPin\<close>, with no request outstanding, sends another \<open>PinMatrixAck\<close> to the
  device and returns the device's answer (a \<open>Failure\<close> message) as a normal result.
\<close>

theorem second_sendPin_counterexample:
  "w_events (snd (snd pin_run1)) = [''device:connected'', ''device:pinRequest'']
   \<and> fst pin_run2 = Inr \<lparr>rsp_type = 2, rsp_message = JObj [(''message'', JStr ''PIN changed'')]\<rparr>
   \<and> fst pin_run3 = Inr \<lparr>rsp_type = 3, rsp_message = JObj [(''code'', JNum 1)]\<rparr>
   \<and> w_log (snd (snd pin_run3)) = w_log (snd (snd pin_run2)) @ [pin_ack_request ''1234'']"
  by (simp add: pin_run3_def pin_run2_eval pin_run1_eval desktop_run_eval client_defs sim_defs
      mt_defs ev_defs pin_ack_request_def)

text \<open>
  Claim C4 (amended): the client keeps no record of an outstanding PIN request.
  On a client that is not connected \<open>sendPin\<close> fails with \<open>Device not connected\<close>
  and sends nothing; on a connected Desktop or Bridge client every \<open>sendPin\<close>, the
  first after a \<open>PinMatrixRequest\<close> and any further one alike, sends exactly one
  \<open>PinMatrixAck\<close> request carrying the PIN and returns what the device answers,
  leaving the client unchanged.
\<close>

theorem sendPin_always_forwards:
  "(\<not> kk_connected c \<longrightarrow> sendPin net c pin w = (Inl (Error ''Device not connected''), c, w))
   \<and> (kk_connected c \<and> cc_connectionType (kk_config c) = KEEPKEY_DESKTOP
        \<and> rq = desktop_call_request c MT_PinMatrixAck [(''pin'', JStr pin)] \<longrightarrow>
          req_body rq = Some (JObj [(''type'', JNum 19), (''pin'', JStr pin)])
        \<and> sendPin net c pin w
            = (response_json (fst (net_call net rq (w_daemon w))), c,
               w\<lparr>w_daemon := snd (net_call net rq (w_daemon w)), w_log := w_log w @ [rq]\<rparr>))
   \<and> (kk_connected c \<and> cc_connectionType (kk_config c) = KEEPKEY_BRIDGE
        \<and> rq = bridge_call_request c MT_PinMatrixAck [(''pin'', JStr pin)] \<longrightarrow>
          req_body rq = Some (JObj [(''type'', JNum 19), (''message'', JObj [(''pin'', JStr pin)])])
        \<and> sendPin net c pin w
            = (response_json (fst (net_call net rq (w_daemon w))), c,
               w\<lparr>w_daemon := snd (net_call net rq (w_daemon w)), w_log := w_log w @ [rq]\<rparr>))"
  by (simp add: sendPin_def call_def callDesktop_def callBridge_def fetch_eq
      desktop_call_request_def bridge_call_request_def spread_def Let_def MT_PinMatrixAck_def)

theorem sendPin_always_forwards_witness:
  "sendPin sim_net (fst (snd pin_run2)) ''1234'' (snd (snd pin_run2))
     = (Inr \<lparr>rsp_type = 3, rsp_message = JObj [(''code'', JNum 1)]\<rparr>, fst (snd pin_run2),
        (snd (snd pin_run2))\<lparr>w_log := w_log (snd (snd pin_run2)) @ [pin_ack_request ''1234'']\<rparr>)
   \<and> sendPin sim_net (new_KeepKeyClient (config_for KEEPKEY_DESKTOP)) ''1234'' (sim_world [])
     = (Inl (Error ''Device not connected''), new_KeepKeyClient (config_for KEEPKEY_DESKTOP),
        sim_world [])"
proof -
  have rq: "desktop_call_request (fst (snd pin_run2)) MT_PinMatrixAck [(''pin'', JStr ''1234'')]
            = pin_ack_request ''1234''"
    by (simp add: pin_run2_eval desktop_run_eval desktop_call_request_def pin_ack_request_def
        sim_defs spread_def MT_PinMatrixAck_def)
  have k: "kk_connected (fst (snd pin_run2))
           \<and> cc_connectionType (kk_config (fst (snd pin_run2))) = KEEPKEY_DESKTOP"
    by (simp add: pin_run2_eval desktop_run_eval sim_defs)
  have n: "\<not> kk_connected (new_KeepKeyClient (config_for KEEPKEY_DESKTOP))"
    by (simp add: new_KeepKeyClient_def)
  have r: "net_call sim_net (pin_ack_request ''1234'') (w_daemon (snd (snd pin_run2)))
           = (Response True [] (Some \<lparr>rsp_type = 3, rsp_message = JObj [(''code'', JNum 1)]\<rparr>),
              w_daemon (snd (snd pin_run2)))"
    by (simp add: pin_run2_eval pin_ack_request_def sim_defs mt_defs)
  show ?thesis
    using sendPin_always_forwards [of "fst (snd pin_run2)" sim_net "''1234''" "snd (snd pin_run2)"
        "pin_ack_request ''1234''"]
      sendPin_always_forwards [of "new_KeepKeyClient (config_for KEEPKEY_DESKTOP)" sim_net
        "''1234''" "sim_world []" "pin_ack_request ''1234''"]
      rq k n r
    by simp
qed

subsection \<open>connect\<close>









subsection \<open>Bridge sessions\<close>




subsection \<open>The connected handle and its identifier\<close>































end
